theory Spec2Isabelle
  imports Main
begin

section \<open>Data model (package api)\<close>

text \<open>
  The protobuf-generated package \<open>api\<close> is not among the sources; the types below carry
  the fields that the orchestrator, the store and the dispatcher read and write. A Go
  pointer that may be nil is an \<open>option\<close>, a slice is a list, \<open>uint64\<close> values that are
  only copied and compared are \<open>nat\<close>, \<open>[]byte\<close> is a string. Dereferencing nil and
  indexing out of range panic in Go; every function that can do so returns
  \<open>error + 'a\<close> with the panic as \<open>Inl\<close>.
\<close>

type_synonym bytes = string

datatype error = NilPointerDereference | IndexOutOfRange

definition bind_err :: "error + 'a \<Rightarrow> ('a \<Rightarrow> error + 'b) \<Rightarrow> error + 'b" where
  "bind_err m f = (case m of Inl e \<Rightarrow> Inl e | Inr x \<Rightarrow> f x)"

datatype TaskState =
    TaskStateNew | TaskStatePending | TaskStateAssigned | TaskStateAccepted
  | TaskStatePreparing | TaskStateReady | TaskStateStarting | TaskStateRunning
  | TaskStateCompleted | TaskStateShutdown | TaskStateFailed | TaskStateRejected
  | TaskStateRemove | TaskStateOrphaned

text \<open>
  Modelled from the spec: the numeric values of the \<open>api.TaskState\<close> enum are declared in
  the absent package \<open>api\<close>; the code only compares states with \<open><\<close>, \<open><=\<close>, \<open>>\<close>, and the
  spec gives the ordered chain New, Pending, Assigned, Accepted, Preparing, Ready,
  Starting, Running, Completed, Shutdown, Failed, Rejected, Remove, Orphaned.
\<close>

fun TaskState_rank :: "TaskState \<Rightarrow> nat" where
  "TaskState_rank TaskStateNew = 0"
| "TaskState_rank TaskStatePending = 1"
| "TaskState_rank TaskStateAssigned = 2"
| "TaskState_rank TaskStateAccepted = 3"
| "TaskState_rank TaskStatePreparing = 4"
| "TaskState_rank TaskStateReady = 5"
| "TaskState_rank TaskStateStarting = 6"
| "TaskState_rank TaskStateRunning = 7"
| "TaskState_rank TaskStateCompleted = 8"
| "TaskState_rank TaskStateShutdown = 9"
| "TaskState_rank TaskStateFailed = 10"
| "TaskState_rank TaskStateRejected = 11"
| "TaskState_rank TaskStateRemove = 12"
| "TaskState_rank TaskStateOrphaned = 13"

datatype ResourceType = ResourceType_TASK | ResourceType_SECRET | ResourceType_CONFIG

record Timestamp =
  Seconds :: int
  Nanos :: int

record Version =
  Index :: nat

record Driver =
  Driver_Name :: string
  Driver_Options :: "(string \<times> string) list"

record Annotations =
  Annotations_Name :: string
  Annotations_Labels :: "(string \<times> string) list"

record FileTarget =
  FileTarget_Name :: string
  FileTarget_UID :: string
  FileTarget_GID :: string
  FileTarget_Mode :: nat

record SecretReference =
  SecretID :: string
  SecretName :: string

record ConfigReference =
  ConfigID :: string
  ConfigName :: string
  ConfigReference_File :: "FileTarget option"

record CertificateIssuance =
  CertificateAuthorityID :: string
  Directory :: "FileTarget option"

record ResourceReference =
  ResourceID :: string
  ResourceType :: ResourceType

record PullOptions =
  RegistryAuth :: string

record ContainerSpec =
  ContainerSpec_Image :: string
  Command :: "string list"
  Env :: "string list"
  Secrets :: "SecretReference list"
  Configs :: "ConfigReference list"
  CertificateIssuances :: "CertificateIssuance list"
  ContainerSpec_PullOptions :: "PullOptions option"

record Placement =
  Constraints :: "string list"

record NetworkAttachmentConfig =
  NetworkAttachmentConfig_Target :: string
  NetworkAttachmentConfig_Aliases :: "string list"

datatype TaskSpec_Runtime =
    Runtime_nil
  | TaskSpec_Container "ContainerSpec option"
  | TaskSpec_Attachment string
  | TaskSpec_Generic string

record TaskSpec =
  Runtime :: TaskSpec_Runtime
  TaskSpec_Placement :: "Placement option"
  TaskSpec_LogDriver :: "Driver option"
  TaskSpec_Networks :: "NetworkAttachmentConfig list"
  ForceUpdate :: nat
  ResourceReferences :: "ResourceReference list"

text \<open>The generated getter: nil unless the runtime variant is a container.\<close>

fun GetContainer :: "TaskSpec \<Rightarrow> ContainerSpec option" where
  "GetContainer spec = (case Runtime spec of TaskSpec_Container c \<Rightarrow> c | _ \<Rightarrow> None)"

record EndpointSpec =
  EndpointSpec_Mode :: nat
  EndpointSpec_Ports :: "(nat \<times> nat) list"

record VirtualIP =
  VirtualIP_NetworkID :: string
  VirtualIP_Addr :: string
  VirtualIP_Name :: string

record Endpoint =
  Endpoint_Spec :: "EndpointSpec option"
  VirtualIPs :: "VirtualIP list"

record Network =
  Network_ID :: string
  Network_Name :: string

record NetworkAttachment =
  NetworkAttachment_Network :: "Network option"
  Addresses :: "string list"
  Aliases :: "string list"

record TaskStatus =
  Status_Timestamp :: "Timestamp option"
  State :: TaskState
  Message :: string
  AppliedAt :: "Timestamp option"

record Task =
  Task_ID :: string
  Task_Spec :: TaskSpec
  Task_SpecVersion :: "Version option"
  Task_ServiceID :: string
  Slot :: nat
  Task_NodeID :: string
  ServiceAnnotations :: Annotations
  Status :: TaskStatus
  DesiredState :: TaskState
  Task_Networks :: "NetworkAttachment list"
  Task_Endpoint :: "Endpoint option"
  Task_LogDriver :: "Driver option"
  MaterializedConfigs :: "ConfigReference list"

record StaticService =
  StaticService_PeerGroup :: string
  PeerNetwork :: string

datatype ServiceSpec_Mode =
    Mode_nil
  | ServiceSpec_Replicated nat
  | ServiceSpec_Global
  | ServiceSpec_Static "StaticService option"

record ServiceSpec =
  ServiceSpec_Annotations :: Annotations
  ServiceSpec_Task :: TaskSpec
  Mode :: ServiceSpec_Mode
  ServiceSpec_Endpoint :: "EndpointSpec option"

fun GetStatic :: "ServiceSpec \<Rightarrow> StaticService option" where
  "GetStatic spec = (case Mode spec of ServiceSpec_Static s \<Rightarrow> s | _ \<Rightarrow> None)"

record StaticInfo =
  StaticInfo_NodeID :: string
  StaticInfo_Message :: string
  StaticInfo_NetworkAttachment :: "NetworkAttachment option"

record Service =
  Service_ID :: string
  Service_Spec :: ServiceSpec
  Service_SpecVersion :: "Version option"
  Service_StaticInfo :: "StaticInfo option"

datatype NodeStatus_State =
  NodeStatus_UNKNOWN | NodeStatus_DOWN | NodeStatus_READY | NodeStatus_DISCONNECTED

datatype NodeSpec_Availability =
  NodeAvailabilityActive | NodeAvailabilityPause | NodeAvailabilityDrain

record Node =
  Node_ID :: string
  Node_State :: NodeStatus_State
  Node_Availability :: NodeSpec_Availability
  Node_Labels :: "(string \<times> string) list"

record Cluster =
  Cluster_ID :: string
  TaskDefaults_LogDriver :: "Driver option"

section \<open>Task model and dirtiness (manager/orchestrator/task.go)\<close>

text \<open>
  \<open>NewTask\<close> draws a fresh identifier from \<open>identity.NewID\<close>, reads the clock and, through
  \<open>GetCertificateIssuanceConfigRefs\<close>, joins paths with \<open>filepath.Join\<close>; the three are
  inputs of the model.
\<close>

record TaskEnv =
  NewID :: string
  Now :: Timestamp
  filepath_Join :: "string \<Rightarrow> string \<Rightarrow> string"

definition PeerGroupConfigRef :: "Task \<Rightarrow> ConfigReference" where
  "PeerGroupConfigRef task =
     \<lparr> ConfigID = Task_ID task @ ''-peer-group'',
       ConfigName = ''peer-group'',
       ConfigReference_File = Some \<lparr> FileTarget_Name = ''/run/peers'', FileTarget_UID = ''0'',
                                     FileTarget_GID = ''0'', FileTarget_Mode = 292 \<rparr> \<rparr>"

text \<open>
  One round of the loop of \<open>GetCertificateIssuanceConfigRefs\<close>. \<open>Directory.Copy()\<close> of a nil
  directory is nil, and the assignment to \<open>caTarget.Name\<close> then dereferences it.
\<close>

definition issuanceConfigRefs ::
  "(string \<Rightarrow> string \<Rightarrow> string) \<Rightarrow> string \<Rightarrow> CertificateIssuance \<Rightarrow> error + ConfigReference list" where
  "issuanceConfigRefs join taskID certIssuance =
     (case Directory certIssuance of
        None \<Rightarrow> Inl NilPointerDereference
      | Some dir \<Rightarrow>
          (let caConfigID = taskID @ ''-'' @ CertificateAuthorityID certIssuance @ ''-issue-ca'';
               caTarget = dir \<lparr> FileTarget_Name := join (FileTarget_Name dir) ''ca.pem'' \<rparr>;
               keyConfigID = taskID @ ''-'' @ CertificateAuthorityID certIssuance @ ''-issue-key'';
               keyTarget = dir \<lparr> FileTarget_Name := join (FileTarget_Name dir) ''key.pem'' \<rparr>;
               certConfigID = taskID @ ''-'' @ CertificateAuthorityID certIssuance @ ''-issue-cert'';
               certTarget = dir \<lparr> FileTarget_Name := join (FileTarget_Name dir) ''cert.pem'' \<rparr>
           in Inr [ \<lparr> ConfigID = caConfigID, ConfigName = caConfigID, ConfigReference_File = Some caTarget \<rparr>,
                    \<lparr> ConfigID = keyConfigID, ConfigName = keyConfigID, ConfigReference_File = Some keyTarget \<rparr>,
                    \<lparr> ConfigID = certConfigID, ConfigName = certConfigID, ConfigReference_File = Some certTarget \<rparr> ]))"

fun issuanceLoop ::
  "(string \<Rightarrow> string \<Rightarrow> string) \<Rightarrow> string \<Rightarrow> ConfigReference list \<Rightarrow> CertificateIssuance list
     \<Rightarrow> error + ConfigReference list" where
  "issuanceLoop join taskID configRefs [] = Inr configRefs"
| "issuanceLoop join taskID configRefs (ci # cis) =
     (case issuanceConfigRefs join taskID ci of
        Inl e \<Rightarrow> Inl e
      | Inr refs \<Rightarrow> issuanceLoop join taskID (configRefs @ refs) cis)"

definition GetCertificateIssuanceConfigRefs ::
  "(string \<Rightarrow> string \<Rightarrow> string) \<Rightarrow> Task \<Rightarrow> error + ConfigReference list" where
  "GetCertificateIssuanceConfigRefs join task =
     (case GetContainer (Task_Spec task) of
        None \<Rightarrow> Inr []
      | Some container \<Rightarrow> issuanceLoop join (Task_ID task) [] (CertificateIssuances container))"

text \<open>
  \<open>NewTask\<close>. The service is passed by value: a nil \<open>*api.Service\<close> panics on the first
  line of the Go function and is outside the model. \<open>Endpoint.Spec\<close> is a copy of the
  service's endpoint spec; networks and virtual IPs are left unset.
\<close>

definition NewTask :: "TaskEnv \<Rightarrow> Cluster option \<Rightarrow> Service \<Rightarrow> nat \<Rightarrow> string \<Rightarrow> error + Task" where
  "NewTask env cluster service slot nodeID =
     (let logDriver =
            (case TaskSpec_LogDriver (ServiceSpec_Task (Service_Spec service)) of
               Some d \<Rightarrow> Some d
             | None \<Rightarrow> (case cluster of Some c \<Rightarrow> TaskDefaults_LogDriver c | None \<Rightarrow> None));
          taskID = NewID env;
          task = \<lparr> Task_ID = taskID,
                   Task_Spec = ServiceSpec_Task (Service_Spec service),
                   Task_SpecVersion = Service_SpecVersion service,
                   Task_ServiceID = Service_ID service,
                   Slot = slot,
                   Task_NodeID = '''',
                   ServiceAnnotations = ServiceSpec_Annotations (Service_Spec service),
                   Status = \<lparr> Status_Timestamp = Some (Now env), State = TaskStateNew,
                              Message = ''created'', AppliedAt = None \<rparr>,
                   DesiredState = TaskStateRunning,
                   Task_Networks = [],
                   Task_Endpoint = Some \<lparr> Endpoint_Spec = ServiceSpec_Endpoint (Service_Spec service),
                                          VirtualIPs = [] \<rparr>,
                   Task_LogDriver = logDriver,
                   MaterializedConfigs = [] \<rparr>;
          task = (if nodeID \<noteq> '''' then task \<lparr> Task_NodeID := nodeID \<rparr> else task);
          task = (if Service_StaticInfo service \<noteq> None
                  then task \<lparr> MaterializedConfigs := MaterializedConfigs task @ [PeerGroupConfigRef task] \<rparr>
                  else task)
      in case GetCertificateIssuanceConfigRefs (filepath_Join env) task of
           Inl e \<Rightarrow> Inl e
         | Inr refs \<Rightarrow> Inr (task \<lparr> MaterializedConfigs := MaterializedConfigs task @ refs \<rparr>))"

text \<open>
  The task of \<open>NewTask\<close> as it stands before the certificate issuance references are
  appended; the proofs about \<open>NewTask\<close> go through it.
\<close>

definition NewTask_before_issuances :: "TaskEnv \<Rightarrow> Cluster option \<Rightarrow> Service \<Rightarrow> nat \<Rightarrow> string \<Rightarrow> Task" where
  "NewTask_before_issuances env cluster service slot nodeID =
     \<lparr> Task_ID = NewID env,
       Task_Spec = ServiceSpec_Task (Service_Spec service),
       Task_SpecVersion = Service_SpecVersion service,
       Task_ServiceID = Service_ID service,
       Slot = slot,
       Task_NodeID = nodeID,
       ServiceAnnotations = ServiceSpec_Annotations (Service_Spec service),
       Status = \<lparr> Status_Timestamp = Some (Now env), State = TaskStateNew,
                  Message = ''created'', AppliedAt = None \<rparr>,
       DesiredState = TaskStateRunning,
       Task_Networks = [],
       Task_Endpoint = Some \<lparr> Endpoint_Spec = ServiceSpec_Endpoint (Service_Spec service),
                              VirtualIPs = [] \<rparr>,
       Task_LogDriver =
         (case TaskSpec_LogDriver (ServiceSpec_Task (Service_Spec service)) of
            Some d \<Rightarrow> Some d
          | None \<Rightarrow> (case cluster of Some c \<Rightarrow> TaskDefaults_LogDriver c | None \<Rightarrow> None)),
       MaterializedConfigs =
         (if Service_StaticInfo service \<noteq> None
          then [\<lparr> ConfigID = NewID env @ ''-peer-group'', ConfigName = ''peer-group'',
                   ConfigReference_File =
                     Some \<lparr> FileTarget_Name = ''/run/peers'', FileTarget_UID = ''0'',
                            FileTarget_GID = ''0'', FileTarget_Mode = 292 \<rparr> \<rparr>]
          else []) \<rparr>"

text \<open>
  \<open>nodeMatches\<close> parses the service's placement constraints and matches them against the
  node with package \<open>constraint\<close>, which is not among the sources: the matcher (parse, then
  \<open>NodeMatches\<close>) is the parameter \<open>matches\<close>. \<open>s.Spec.Task.Placement.Constraints\<close>
  dereferences the placement pointer.
\<close>

definition nodeMatches :: "(string list \<Rightarrow> Node \<Rightarrow> bool) \<Rightarrow> Service \<Rightarrow> Node option \<Rightarrow> error + bool" where
  "nodeMatches matches s n =
     (case n of
        None \<Rightarrow> Inr False
      | Some node \<Rightarrow>
          (case TaskSpec_Placement (ServiceSpec_Task (Service_Spec s)) of
             None \<Rightarrow> Inl NilPointerDereference
           | Some p \<Rightarrow> Inr (matches (Constraints p) node)))"

text \<open>\<open>reflect.DeepEqual\<close> on specs is equality of the modelled values.\<close>

definition IsTaskDirtyPlacementConstraintsOnly :: "TaskSpec \<Rightarrow> Task \<Rightarrow> bool" where
  "IsTaskDirtyPlacementConstraintsOnly serviceTaskSpec t =
     (if TaskSpec_Placement serviceTaskSpec = TaskSpec_Placement (Task_Spec t) then False
      else serviceTaskSpec \<lparr> TaskSpec_Placement := TaskSpec_Placement (Task_Spec t) \<rparr> = Task_Spec t)"

definition IsTaskDirty :: "(string list \<Rightarrow> Node \<Rightarrow> bool) \<Rightarrow> Service \<Rightarrow> Task \<Rightarrow> Node option \<Rightarrow> error + bool" where
  "IsTaskDirty matches s t n =
     (if Task_SpecVersion t \<noteq> None \<and> Service_SpecVersion s \<noteq> None
         \<and> the (Service_SpecVersion s) = the (Task_SpecVersion t)
      then Inr False
      else
        let serviceTaskSpec = ServiceSpec_Task (Service_Spec s) in
        case (if IsTaskDirtyPlacementConstraintsOnly serviceTaskSpec t
              then nodeMatches matches s n else Inr False) of
          Inl e \<Rightarrow> Inl e
        | Inr True \<Rightarrow> Inr False
        | Inr False \<Rightarrow>
            (let currentState = State (Status t);
                 ignorePullOpts =
                   (TaskState_rank (DesiredState t) \<le> TaskState_rank TaskStateRunning
                    \<and> TaskState_rank currentState \<ge> TaskState_rank TaskStateReady
                    \<and> TaskState_rank currentState \<le> TaskState_rank TaskStateRunning);
                 serviceTaskSpec =
                   (case (GetContainer serviceTaskSpec, GetContainer (Task_Spec t)) of
                      (Some sc, Some tc) \<Rightarrow>
                        if ignorePullOpts
                        then serviceTaskSpec \<lparr> Runtime := TaskSpec_Container
                               (Some (sc \<lparr> ContainerSpec_PullOptions := ContainerSpec_PullOptions tc \<rparr>)) \<rparr>
                        else serviceTaskSpec
                    | _ \<Rightarrow> serviceTaskSpec)
             in Inr (serviceTaskSpec \<noteq> Task_Spec t
                     \<or> (case Task_Endpoint t of
                           None \<Rightarrow> False
                         | Some ep \<Rightarrow> ServiceSpec_Endpoint (Service_Spec s) \<noteq> Endpoint_Spec ep))))"

definition InvalidNode :: "Node option \<Rightarrow> bool" where
  "InvalidNode n =
     (case n of
        None \<Rightarrow> True
      | Some node \<Rightarrow> Node_State node = NodeStatus_DOWN \<or> Node_Availability node = NodeAvailabilityDrain)"

text \<open>
  \<open>TasksByTimestamp.Less\<close>. Indexing the slice out of range panics. The second \<open>if\<close>
  assigns to \<open>iTimestamp\<close>, as the source does.
\<close>

definition TasksByTimestamp_Less :: "Task list \<Rightarrow> nat \<Rightarrow> nat \<Rightarrow> error + bool" where
  "TasksByTimestamp_Less t i j =
     (if i \<ge> length t \<or> j \<ge> length t then Inl IndexOutOfRange
      else
        let iTimestamp = Status_Timestamp (Status (t ! i));
            iTimestamp = (if AppliedAt (Status (t ! i)) \<noteq> None
                          then AppliedAt (Status (t ! i)) else iTimestamp);
            jTimestamp = Status_Timestamp (Status (t ! j));
            iTimestamp = (if AppliedAt (Status (t ! j)) \<noteq> None
                          then AppliedAt (Status (t ! j)) else iTimestamp)
        in case iTimestamp of
             None \<Rightarrow> Inr True
           | Some its \<Rightarrow>
               (case jTimestamp of
                  None \<Rightarrow> Inr False
                | Some jts \<Rightarrow>
                    if Seconds its < Seconds jts then Inr True
                    else if Seconds its > Seconds jts then Inr False
                    else Inr (Nanos its < Nanos jts)))"

text \<open>
  The ordering as the spec words it, for comparison with the code: each side takes its own
  \<open>AppliedAt\<close> when set and its \<open>Timestamp\<close> otherwise; a nil effective timestamp compares
  less; seconds are compared before nanos.
\<close>

definition effectiveTimestamp :: "Task \<Rightarrow> Timestamp option" where
  "effectiveTimestamp task =
     (case AppliedAt (Status task) of Some ts \<Rightarrow> Some ts | None \<Rightarrow> Status_Timestamp (Status task))"

definition TasksByTimestamp_Less_spec :: "Task list \<Rightarrow> nat \<Rightarrow> nat \<Rightarrow> error + bool" where
  "TasksByTimestamp_Less_spec t i j =
     (if i \<ge> length t \<or> j \<ge> length t then Inl IndexOutOfRange
      else case effectiveTimestamp (t ! i) of
             None \<Rightarrow> Inr True
           | Some its \<Rightarrow>
               (case effectiveTimestamp (t ! j) of
                  None \<Rightarrow> Inr False
                | Some jts \<Rightarrow>
                    Inr (Seconds its < Seconds jts
                         \<or> (Seconds its = Seconds jts \<and> Nanos its < Nanos jts))))"

section \<open>Object store (manager/state/store)\<close>

text \<open>
  A table is the list of its objects in iteration order. \<open>memory.go\<close>, with the
  transaction primitives \<open>get\<close>, \<open>lookup\<close>, \<open>create\<close>, \<open>update\<close> and \<open>delete\<close>, is not
  among the sources, and neither are the table files of services, tasks, secrets and
  configs. A store value is the state a transaction sees; an operation that returns an
  error leaves the store as it was, since the enclosing transaction is discarded.
\<close>

datatype StoreError = ErrExist | ErrNotExist | ErrNameConflict | ErrInvalidFindBy

record SecretSpec =
  SecretSpec_Name :: string
  SecretSpec_Data :: bytes
  SecretSpec_Driver :: "Driver option"

record Secret =
  Secret_ID :: string
  Secret_Spec :: SecretSpec

record ConfigSpec =
  ConfigSpec_Name :: string
  ConfigSpec_Data :: bytes

record Config =
  Config_ID :: string
  Config_Spec :: ConfigSpec

record CertificateAuthority =
  CertificateAuthority_ID :: string
  CertificateAuthority_Name :: string
  Cert :: bytes
  Key :: bytes

record PeerGroup =
  PeerGroup_ID :: string
  PeerGroup_Name :: string
  PeerGroup_Network :: string

record Store =
  tableService :: "Service list"
  tableTask :: "Task list"
  tableSecret :: "Secret list"
  tableConfig :: "Config list"
  tableCertificateAuthority :: "CertificateAuthority list"
  tablePeerGroup :: "PeerGroup list"
  tableCluster :: "(string \<times> Cluster) list"

definition emptyStore :: Store where
  "emptyStore = \<lparr> tableService = [], tableTask = [], tableSecret = [], tableConfig = [],
                   tableCertificateAuthority = [], tablePeerGroup = [], tableCluster = [] \<rparr>"

text \<open>
  \<open>strings.ToLower\<close> on the ASCII letters; the Go function also maps the upper-case
  letters of other scripts.
\<close>

definition toLowerChar :: "char \<Rightarrow> char" where
  "toLowerChar c =
     (case map_of (zip ''ABCDEFGHIJKLMNOPQRSTUVWXYZ'' ''abcdefghijklmnopqrstuvwxyz'') c of
        Some l \<Rightarrow> l
      | None \<Rightarrow> c)"

definition ToLower :: "string \<Rightarrow> string" where
  "ToLower s = map toLowerChar s"

definition Service_Name :: "Service \<Rightarrow> string" where
  "Service_Name s = Annotations_Name (ServiceSpec_Annotations (Service_Spec s))"

text \<open>
  Modelled from the spec: the transaction primitives of the absent \<open>memory.go\<close>.
  \<open>get\<close> finds an object by its unique id; \<open>lookup\<close> on the name index finds the object
  whose name, normalised to lower case, is the key; \<open>create\<close> fails with \<open>ErrExist\<close> on an
  id collision; \<open>update\<close> and \<open>delete\<close> fail with \<open>ErrNotExist\<close> when the id is absent.
\<close>

definition tx_get :: "('a \<Rightarrow> string) \<Rightarrow> 'a list \<Rightarrow> string \<Rightarrow> 'a option" where
  "tx_get getID table ident = find (\<lambda>obj. getID obj = ident) table"

definition tx_lookup_name :: "('a \<Rightarrow> string) \<Rightarrow> 'a list \<Rightarrow> string \<Rightarrow> 'a option" where
  "tx_lookup_name getName table key = find (\<lambda>obj. ToLower (getName obj) = key) table"

definition tx_create :: "('a \<Rightarrow> string) \<Rightarrow> 'a list \<Rightarrow> 'a \<Rightarrow> StoreError + 'a list" where
  "tx_create getID table obj =
     (if tx_get getID table (getID obj) \<noteq> None then Inl ErrExist else Inr (table @ [obj]))"

definition tx_update :: "('a \<Rightarrow> string) \<Rightarrow> 'a list \<Rightarrow> 'a \<Rightarrow> StoreError + 'a list" where
  "tx_update getID table obj =
     (if tx_get getID table (getID obj) = None then Inl ErrNotExist
      else Inr (map (\<lambda>old. if getID old = getID obj then obj else old) table))"

definition tx_delete :: "('a \<Rightarrow> string) \<Rightarrow> 'a list \<Rightarrow> string \<Rightarrow> StoreError + 'a list" where
  "tx_delete getID table ident =
     (if tx_get getID table ident = None then Inl ErrNotExist
      else Inr (filter (\<lambda>old. getID old \<noteq> ident) table))"

definition GetService :: "Store \<Rightarrow> string \<Rightarrow> Service option" where
  "GetService tx ident = tx_get Service_ID (tableService tx) ident"

definition GetTask :: "Store \<Rightarrow> string \<Rightarrow> Task option" where
  "GetTask tx ident = tx_get Task_ID (tableTask tx) ident"

definition GetSecret :: "Store \<Rightarrow> string \<Rightarrow> Secret option" where
  "GetSecret tx ident = tx_get Secret_ID (tableSecret tx) ident"

definition GetConfig :: "Store \<Rightarrow> string \<Rightarrow> Config option" where
  "GetConfig tx ident = tx_get Config_ID (tableConfig tx) ident"

definition GetCA :: "Store \<Rightarrow> string \<Rightarrow> CertificateAuthority option" where
  "GetCA tx ident = tx_get CertificateAuthority_ID (tableCertificateAuthority tx) ident"

text \<open>Modelled from the spec: \<open>CreateTask\<close> of the absent task table file creates by id.\<close>

definition CreateTask :: "Store \<Rightarrow> Task \<Rightarrow> StoreError + Store" where
  "CreateTask tx task =
     (case tx_create Task_ID (tableTask tx) task of
        Inl e \<Rightarrow> Inl e
      | Inr tasks \<Rightarrow> Inr (tx \<lparr> tableTask := tasks \<rparr>))"

text \<open>The peer group table (the functions of the source).\<close>

definition CreatePeerGroup :: "Store \<Rightarrow> PeerGroup \<Rightarrow> StoreError + Store" where
  "CreatePeerGroup tx peerGroup =
     (if tx_lookup_name PeerGroup_Name (tablePeerGroup tx) (ToLower (PeerGroup_Name peerGroup)) \<noteq> None
      then Inl ErrNameConflict
      else if tx_lookup_name Service_Name (tableService tx) (ToLower (PeerGroup_Name peerGroup)) \<noteq> None
      then Inl ErrNameConflict
      else case tx_create PeerGroup_ID (tablePeerGroup tx) peerGroup of
             Inl e \<Rightarrow> Inl e
           | Inr table \<Rightarrow> Inr (tx \<lparr> tablePeerGroup := table \<rparr>))"

definition UpdatePeerGroup :: "Store \<Rightarrow> PeerGroup \<Rightarrow> StoreError + Store" where
  "UpdatePeerGroup tx peerGroup =
     (let conflict =
            (case tx_lookup_name PeerGroup_Name (tablePeerGroup tx) (ToLower (PeerGroup_Name peerGroup)) of
               Some existing \<Rightarrow> PeerGroup_ID existing \<noteq> PeerGroup_ID peerGroup
             | None \<Rightarrow>
                 tx_lookup_name Service_Name (tableService tx) (ToLower (PeerGroup_Name peerGroup)) \<noteq> None)
      in if conflict then Inl ErrNameConflict
         else case tx_update PeerGroup_ID (tablePeerGroup tx) peerGroup of
                Inl e \<Rightarrow> Inl e
              | Inr table \<Rightarrow> Inr (tx \<lparr> tablePeerGroup := table \<rparr>))"

definition DeletePeerGroup :: "Store \<Rightarrow> string \<Rightarrow> StoreError + Store" where
  "DeletePeerGroup tx ident =
     (case tx_delete PeerGroup_ID (tablePeerGroup tx) ident of
        Inl e \<Rightarrow> Inl e
      | Inr table \<Rightarrow> Inr (tx \<lparr> tablePeerGroup := table \<rparr>))"

definition GetPeerGroup :: "Store \<Rightarrow> string \<Rightarrow> PeerGroup option" where
  "GetPeerGroup tx ident = tx_get PeerGroup_ID (tablePeerGroup tx) ident"

text \<open>
  Modelled from the spec: the service table file is not among the sources. The spec has
  peer groups and services share one name space, and \<open>ErrNameConflict\<close> cover that rule,
  so creating or updating a service checks the name index of both tables, the update
  allowing the name the service itself already holds.
\<close>

definition CreateService :: "Store \<Rightarrow> Service \<Rightarrow> StoreError + Store" where
  "CreateService tx service =
     (if tx_lookup_name Service_Name (tableService tx) (ToLower (Service_Name service)) \<noteq> None
      then Inl ErrNameConflict
      else if tx_lookup_name PeerGroup_Name (tablePeerGroup tx) (ToLower (Service_Name service)) \<noteq> None
      then Inl ErrNameConflict
      else case tx_create Service_ID (tableService tx) service of
             Inl e \<Rightarrow> Inl e
           | Inr table \<Rightarrow> Inr (tx \<lparr> tableService := table \<rparr>))"

definition UpdateService :: "Store \<Rightarrow> Service \<Rightarrow> StoreError + Store" where
  "UpdateService tx service =
     (let conflict =
            (case tx_lookup_name Service_Name (tableService tx) (ToLower (Service_Name service)) of
               Some existing \<Rightarrow> Service_ID existing \<noteq> Service_ID service
             | None \<Rightarrow>
                 tx_lookup_name PeerGroup_Name (tablePeerGroup tx) (ToLower (Service_Name service)) \<noteq> None)
      in if conflict then Inl ErrNameConflict
         else case tx_update Service_ID (tableService tx) service of
                Inl e \<Rightarrow> Inl e
              | Inr table \<Rightarrow> Inr (tx \<lparr> tableService := table \<rparr>))"

definition DeleteService :: "Store \<Rightarrow> string \<Rightarrow> StoreError + Store" where
  "DeleteService tx ident =
     (case tx_delete Service_ID (tableService tx) ident of
        Inl e \<Rightarrow> Inl e
      | Inr table \<Rightarrow> Inr (tx \<lparr> tableService := table \<rparr>))"

text \<open>
  A sequence of store operations, each in a transaction of its own: an operation that
  fails is rolled back and the sequence goes on.
\<close>

datatype StoreOp =
    OpCreateService Service | OpUpdateService Service | OpDeleteService string
  | OpCreatePeerGroup PeerGroup | OpUpdatePeerGroup PeerGroup | OpDeletePeerGroup string

fun applyStoreOp :: "Store \<Rightarrow> StoreOp \<Rightarrow> StoreError + Store" where
  "applyStoreOp tx (OpCreateService s) = CreateService tx s"
| "applyStoreOp tx (OpUpdateService s) = UpdateService tx s"
| "applyStoreOp tx (OpDeleteService i) = DeleteService tx i"
| "applyStoreOp tx (OpCreatePeerGroup p) = CreatePeerGroup tx p"
| "applyStoreOp tx (OpUpdatePeerGroup p) = UpdatePeerGroup tx p"
| "applyStoreOp tx (OpDeletePeerGroup i) = DeletePeerGroup tx i"

definition commitStoreOp :: "Store \<Rightarrow> StoreOp \<Rightarrow> Store" where
  "commitStoreOp tx op = (case applyStoreOp tx op of Inl e \<Rightarrow> tx | Inr tx' \<Rightarrow> tx')"

definition runStoreOps :: "Store \<Rightarrow> StoreOp list \<Rightarrow> Store" where
  "runStoreOps tx ops = foldl commitStoreOp tx ops"

text \<open>
  The invariant of the name indexes that the peer group functions rely on: no service and
  peer group share a lower-cased name, and the peer group table has unique ids and
  unique lower-cased names.
\<close>

definition names_disjoint :: "Store \<Rightarrow> bool" where
  "names_disjoint tx =
     (\<forall>s \<in> set (tableService tx). \<forall>p \<in> set (tablePeerGroup tx).
        ToLower (Service_Name s) \<noteq> ToLower (PeerGroup_Name p))"

definition peer_groups_unique :: "Store \<Rightarrow> bool" where
  "peer_groups_unique tx =
     (distinct (map PeerGroup_ID (tablePeerGroup tx))
      \<and> distinct (map (\<lambda>p. ToLower (PeerGroup_Name p)) (tablePeerGroup tx)))"

section \<open>Static orchestrator (manager/orchestrator/static)\<close>

text \<open>
  The orchestrator's own maps. The store, the watch queue, the channels and the two
  supervisors are outside this state: the store is passed to the functions that read or
  write it.
\<close>

record Orchestrator =
  services :: "string \<rightharpoonup> Service"
  servicesByNodeID :: "string \<rightharpoonup> string set"
  restartTasks :: "string set"
  cluster :: "Cluster option"

definition NewStaticOrchestrator :: Orchestrator where
  "NewStaticOrchestrator =
     \<lparr> services = Map.empty, servicesByNodeID = Map.empty, restartTasks = {}, cluster = None \<rparr>"

text \<open>
  Modelled from the spec: \<open>orchestrator.IsStaticService\<close> is declared in a file that is not
  among the sources; the spec's \<open>isStatic(svc)\<close> holds when the mode variant of the
  service spec is Static.
\<close>

definition IsStaticService :: "Service \<Rightarrow> bool" where
  "IsStaticService service =
     (case Mode (Service_Spec service) of ServiceSpec_Static s \<Rightarrow> True | _ \<Rightarrow> False)"

text \<open>
  \<open>IsRelatedService\<close>: the conjunction short-circuits, and \<open>service.StaticInfo.NodeID\<close>
  dereferences the \<open>StaticInfo\<close> pointer.
\<close>

definition IsRelatedService :: "Service \<Rightarrow> error + bool" where
  "IsRelatedService service =
     (if IsStaticService service
      then (case Service_StaticInfo service of
              None \<Rightarrow> Inl NilPointerDereference
            | Some info \<Rightarrow> Inr (StaticInfo_NodeID info \<noteq> ''''))
      else Inr False)"

definition updateService :: "Orchestrator \<Rightarrow> Service \<Rightarrow> error + Orchestrator" where
  "updateService orch service =
     (let orch = orch \<lparr> services := (services orch)(Service_ID service \<mapsto> service) \<rparr>
      in case Service_StaticInfo service of
           None \<Rightarrow> Inl NilPointerDereference
         | Some info \<Rightarrow>
             (let nodeID = StaticInfo_NodeID info
              in if nodeID \<noteq> ''''
                 then Inr (orch \<lparr> servicesByNodeID := (servicesByNodeID orch)
                             (nodeID \<mapsto> insert (Service_ID service)
                                (case servicesByNodeID orch nodeID of None \<Rightarrow> {} | Some ids \<Rightarrow> ids)) \<rparr>)
                 else Inr orch))"

text \<open>
  The start of \<open>Run\<close>, up to the call of \<open>initTasks\<close>: the cluster lookup by the well-known
  name, and the loop over the existing services that fills the indexes and collects
  \<open>reconcileServiceIDs\<close>. The result is the orchestrator and the ids handed to the first
  \<open>reconcileServices\<close>.
\<close>

definition DefaultClusterName :: string where
  "DefaultClusterName = ''default''"

fun Run_services :: "Orchestrator \<Rightarrow> string list \<Rightarrow> Service list \<Rightarrow> error + (Orchestrator \<times> string list)" where
  "Run_services orch reconcileServiceIDs [] = Inr (orch, reconcileServiceIDs)"
| "Run_services orch reconcileServiceIDs (s # existingServices) =
     (if IsStaticService s
      then (case updateService orch s of
              Inl e \<Rightarrow> Inl e
            | Inr orch' \<Rightarrow> Run_services orch' (reconcileServiceIDs @ [Service_ID s]) existingServices)
      else Run_services orch reconcileServiceIDs existingServices)"

definition Run_start :: "Store \<Rightarrow> Orchestrator \<Rightarrow> error + (Orchestrator \<times> string list)" where
  "Run_start store orch =
     (let clusters = filter (\<lambda>(name, c). ToLower name = ToLower DefaultClusterName) (tableCluster store);
          orch = (case clusters of [(name, c)] \<Rightarrow> orch \<lparr> cluster := Some c \<rparr> | _ \<Rightarrow> orch)
      in Run_services orch [] (tableService store))"

text \<open>
  \<open>addTask\<close>. The task is created in a transaction of its own; an error of the transaction
  is logged and the store stays as it was.
\<close>

definition addTask :: "TaskEnv \<Rightarrow> Orchestrator \<Rightarrow> Store \<Rightarrow> Service \<Rightarrow> string \<Rightarrow> error + Store" where
  "addTask env orch store service nodeID =
     (case NewTask env (cluster orch) service 0 nodeID of
        Inl e \<Rightarrow> Inl e
      | Inr task \<Rightarrow>
          (let task = task \<lparr> MaterializedConfigs := MaterializedConfigs task @ [PeerGroupConfigRef task] \<rparr>
           in if GetService store (Service_ID service) = None then Inr store
              else (case CreateTask store task of
                      Inl err \<Rightarrow> Inr store
                    | Inr store' \<Rightarrow> Inr store')))"

text \<open>The config ids that a certificate issuance contributes to a task, in order.\<close>

definition issuanceConfigIDs :: "string \<Rightarrow> CertificateIssuance \<Rightarrow> string list" where
  "issuanceConfigIDs taskID certIssuance =
     [ taskID @ ''-'' @ CertificateAuthorityID certIssuance @ ''-issue-ca'',
       taskID @ ''-'' @ CertificateAuthorityID certIssuance @ ''-issue-key'',
       taskID @ ''-'' @ CertificateAuthorityID certIssuance @ ''-issue-cert'' ]"

definition taskCertificateIssuances :: "TaskSpec \<Rightarrow> CertificateIssuance list" where
  "taskCertificateIssuances spec =
     (case GetContainer spec of None \<Rightarrow> [] | Some container \<Rightarrow> CertificateIssuances container)"

text \<open>What a run of \<open>addTask\<close> left in the task table: the materialized config ids, per task.\<close>

definition materializedConfigIDs :: "error + Store \<Rightarrow> string list list" where
  "materializedConfigIDs r =
     (case r of
        Inl e \<Rightarrow> []
      | Inr store \<Rightarrow> map (\<lambda>task. map ConfigID (MaterializedConfigs task)) (tableTask store))"

section \<open>Dispatcher assignment set (manager/dispatcher)\<close>

text \<open>
  A map key \<open>typeAndID\<close> is the pair of the object type and the id. An assignment carries
  a task, a secret or a config; a change pairs it with the action.
\<close>

type_synonym typeAndID = "ResourceType \<times> string"

datatype Assignment_Item =
    Assignment_Task Task
  | Assignment_Secret Secret
  | Assignment_Config Config

datatype AssignmentAction = AssignmentActionUpdate | AssignmentActionRemove

record AssignmentChange =
  Assignment :: Assignment_Item
  Action :: AssignmentAction

text \<open>The zero values of the Go structs, for the minimal payloads of Remove changes.\<close>

definition zeroTaskSpec :: TaskSpec where
  "zeroTaskSpec =
     \<lparr> Runtime = Runtime_nil, TaskSpec_Placement = None, TaskSpec_LogDriver = None,
       TaskSpec_Networks = [], ForceUpdate = 0, ResourceReferences = [] \<rparr>"

definition Task_with_ID :: "string \<Rightarrow> Task" where
  "Task_with_ID ident =
     \<lparr> Task_ID = ident, Task_Spec = zeroTaskSpec, Task_SpecVersion = None, Task_ServiceID = '''',
       Slot = 0, Task_NodeID = '''',
       ServiceAnnotations = \<lparr> Annotations_Name = '''', Annotations_Labels = [] \<rparr>,
       Status = \<lparr> Status_Timestamp = None, State = TaskStateNew, Message = '''', AppliedAt = None \<rparr>,
       DesiredState = TaskStateNew, Task_Networks = [], Task_Endpoint = None,
       Task_LogDriver = None, MaterializedConfigs = [] \<rparr>"

definition Secret_with_ID :: "string \<Rightarrow> Secret" where
  "Secret_with_ID ident =
     \<lparr> Secret_ID = ident,
       Secret_Spec = \<lparr> SecretSpec_Name = '''', SecretSpec_Data = '''', SecretSpec_Driver = None \<rparr> \<rparr>"

definition Config_with_data :: "string \<Rightarrow> bytes \<Rightarrow> Config" where
  "Config_with_data ident dat =
     \<lparr> Config_ID = ident, Config_Spec = \<lparr> ConfigSpec_Name = '''', ConfigSpec_Data = dat \<rparr> \<rparr>"

definition Config_with_ID :: "string \<Rightarrow> Config" where
  "Config_with_ID ident = Config_with_data ident ''''"

record peerGroupConfig =
  SelfName :: string
  SelfAddr :: string
  Peers :: "string \<rightharpoonup> string"

text \<open>
  What the assignment set writes to its logger. Each constructor is one logging call of
  the source, with the fields that identify its subject.
\<close>

datatype LogEntry =
    Log_failed_to_fetch_secret string
  | Log_config_not_found string
  | Log_invalid_resource_type ResourceType
  | Log_unable_to_parse_CIDR_address string
  | Log_unable_to_parse_CIDR string
  | Log_unable_to_find_services string
  | Log_service_not_found string string
  | Log_certificate_authority_not_found string string
  | Log_unable_to_load_Root_CA string string
  | Log_unable_to_generate_CSR string string
  | Log_unable_to_get_signer string string
  | Log_unable_to_sign_certificate string string

datatype IssuanceError = LoadRootCA | GenerateCSR | GetSigner | Sign

text \<open>
  The collaborators outside the sources, as parameters. \<open>TasksEqualStable\<close> is package
  \<open>api/equality\<close>; \<open>ParseCIDR\<close> gives the string of the parsed IP address, or nothing when
  \<open>net.ParseCIDR\<close> fails; \<open>MarshalIndent\<close> is the JSON encoding of the peer group config;
  \<open>SecretDriver_Get\<close> stands for creating the driver and calling its \<open>Get\<close>, nothing when
  either fails; \<open>IssueCertificate\<close> stands for loading the root CA, generating the request
  and key, getting the signer and signing, and gives the key and the certificate or the
  step that failed.
\<close>

record Externals =
  TasksEqualStable :: "Task \<Rightarrow> Task \<Rightarrow> bool"
  ParseCIDR :: "string \<Rightarrow> string option"
  MarshalIndent :: "peerGroupConfig \<Rightarrow> bytes"
  SecretDriver_Get :: "Driver \<Rightarrow> SecretSpec \<Rightarrow> Task \<Rightarrow> bytes option"
  ValidateSecretPayload :: "bytes \<Rightarrow> bool"
  IssueCertificate :: "CertificateAuthority \<Rightarrow> string set \<Rightarrow> string \<Rightarrow> IssuanceError + (bytes \<times> bytes)"

record assignmentSet =
  tasksMap :: "string \<rightharpoonup> Task"
  tasksUsingDependency :: "typeAndID \<rightharpoonup> string set"
  changes :: "typeAndID \<rightharpoonup> AssignmentChange"
  log :: "LogEntry list"

definition newAssignmentSet :: assignmentSet where
  "newAssignmentSet =
     \<lparr> tasksMap = Map.empty, tasksUsingDependency = Map.empty, changes = Map.empty, log = [] \<rparr>"

text \<open>
  \<open>a.tasksUsingDependency[mapKey]\<close> read: a missing key gives the nil map, whose length
  is 0.
\<close>

definition usersOf :: "assignmentSet \<Rightarrow> typeAndID \<Rightarrow> string set" where
  "usersOf a mapKey = (case tasksUsingDependency a mapKey of None \<Rightarrow> {} | Some users \<Rightarrow> users)"

text \<open>
  \<open>a.tasksUsingDependency[mapKey][taskID] = struct{}{}\<close>. The source writes to the inner
  map only where it is non-empty or has just been made.
\<close>

definition addUser :: "assignmentSet \<Rightarrow> typeAndID \<Rightarrow> string \<Rightarrow> assignmentSet" where
  "addUser a mapKey taskID =
     a \<lparr> tasksUsingDependency := (tasksUsingDependency a)(mapKey \<mapsto> insert taskID (usersOf a mapKey)) \<rparr>"

definition logf :: "assignmentSet \<Rightarrow> LogEntry \<Rightarrow> assignmentSet" where
  "logf a entry = a \<lparr> log := log a @ [entry] \<rparr>"

definition updateChange :: "Assignment_Item \<Rightarrow> AssignmentChange" where
  "updateChange item = \<lparr> Assignment = item, Action = AssignmentActionUpdate \<rparr>"

definition removeChange :: "Assignment_Item \<Rightarrow> AssignmentChange" where
  "removeChange item = \<lparr> Assignment = item, Action = AssignmentActionRemove \<rparr>"

text \<open>
  \<open>secret\<close>: the stored secret, or for a secret with a driver the secret with the value the
  driver returns, once validated. Nothing stands for each of the error returns.
\<close>

definition secret :: "Externals \<Rightarrow> Store \<Rightarrow> Task \<Rightarrow> string \<Rightarrow> Secret option" where
  "secret ext readTx task secretID =
     (case GetSecret readTx secretID of
        None \<Rightarrow> None
      | Some s \<Rightarrow>
          (case SecretSpec_Driver (Secret_Spec s) of
             None \<Rightarrow> Some s
           | Some d \<Rightarrow>
               (case SecretDriver_Get ext d (Secret_Spec s) task of
                  None \<Rightarrow> None
                | Some val \<Rightarrow>
                    if ValidateSecretPayload ext val
                    then Some (s \<lparr> Secret_Spec := (Secret_Spec s) \<lparr> SecretSpec_Data := val \<rparr> \<rparr>)
                    else None)))"

definition assignSecret :: "Externals \<Rightarrow> assignmentSet \<Rightarrow> Store \<Rightarrow> typeAndID \<Rightarrow> Task \<Rightarrow> assignmentSet" where
  "assignSecret ext a readTx mapKey t =
     (let a = a \<lparr> tasksUsingDependency := (tasksUsingDependency a)(mapKey \<mapsto> {}) \<rparr>
      in case secret ext readTx t (snd mapKey) of
           None \<Rightarrow> logf a (Log_failed_to_fetch_secret (snd mapKey))
         | Some s \<Rightarrow> a \<lparr> changes := (changes a)(mapKey \<mapsto> updateChange (Assignment_Secret s)) \<rparr>)"

definition assignConfig :: "assignmentSet \<Rightarrow> Store \<Rightarrow> typeAndID \<Rightarrow> assignmentSet" where
  "assignConfig a readTx mapKey =
     (let a = a \<lparr> tasksUsingDependency := (tasksUsingDependency a)(mapKey \<mapsto> {}) \<rparr>
      in case GetConfig readTx (snd mapKey) of
           None \<Rightarrow> logf a (Log_config_not_found (snd mapKey))
         | Some config \<Rightarrow> a \<lparr> changes := (changes a)(mapKey \<mapsto> updateChange (Assignment_Config config)) \<rparr>)"

text \<open>The bodies of the three loops over the declared references of \<open>addTaskDependencies\<close>.\<close>

definition addResourceReference ::
  "Externals \<Rightarrow> Store \<Rightarrow> Task \<Rightarrow> assignmentSet \<Rightarrow> ResourceReference \<Rightarrow> assignmentSet" where
  "addResourceReference ext readTx t a resourceRef =
     (let mapKey = (ResourceType resourceRef, ResourceID resourceRef)
      in if usersOf a mapKey = {}
         then (case ResourceType resourceRef of
                 ResourceType_SECRET \<Rightarrow> addUser (assignSecret ext a readTx mapKey t) mapKey (Task_ID t)
               | ResourceType_CONFIG \<Rightarrow> addUser (assignConfig a readTx mapKey) mapKey (Task_ID t)
               | ResourceType_TASK \<Rightarrow> logf a (Log_invalid_resource_type (ResourceType resourceRef)))
         else addUser a mapKey (Task_ID t))"

definition addSecretReference ::
  "Externals \<Rightarrow> Store \<Rightarrow> Task \<Rightarrow> assignmentSet \<Rightarrow> SecretReference \<Rightarrow> assignmentSet" where
  "addSecretReference ext readTx t a secretRef =
     (let mapKey = (ResourceType_SECRET, SecretID secretRef)
      in addUser (if usersOf a mapKey = {} then assignSecret ext a readTx mapKey t else a)
           mapKey (Task_ID t))"

definition addConfigReference ::
  "Store \<Rightarrow> Task \<Rightarrow> assignmentSet \<Rightarrow> ConfigReference \<Rightarrow> assignmentSet" where
  "addConfigReference readTx t a configRef =
     (let mapKey = (ResourceType_CONFIG, ConfigID configRef)
      in addUser (if usersOf a mapKey = {} then assignConfig a readTx mapKey else a)
           mapKey (Task_ID t))"

text \<open>
  \<open>deCIDR\<close> gives the address without its suffix, and the address itself, with a warning
  logged, when it does not parse.
\<close>

definition deCIDR :: "Externals \<Rightarrow> assignmentSet \<Rightarrow> string \<Rightarrow> assignmentSet \<times> string" where
  "deCIDR ext a addressWithCIDR =
     (case ParseCIDR ext addressWithCIDR of
        None \<Rightarrow> (logf a (Log_unable_to_parse_CIDR_address addressWithCIDR), addressWithCIDR)
      | Some ip \<Rightarrow> (a, ip))"

text \<open>
  \<open>getTaskCertHosts\<close>. The host set is a Go map used as a set and is returned as a slice in
  map order, so the result is a set. \<open>attachment.Network\<close> is a pointer that the first
  loop dereferences. The loops only add hosts and log parse errors, so the hosts and the
  log lines are collected per attachment and per virtual IP.
\<close>

fun networkNamesOf :: "NetworkAttachment list \<Rightarrow> (string \<rightharpoonup> string) \<Rightarrow> error + (string \<rightharpoonup> string)" where
  "networkNamesOf [] networkNames = Inr networkNames"
| "networkNamesOf (attachment # attachments) networkNames =
     (case NetworkAttachment_Network attachment of
        None \<Rightarrow> Inl NilPointerDereference
      | Some network \<Rightarrow>
          networkNamesOf attachments (networkNames(Network_ID network \<mapsto> Network_Name network)))"

definition networkNameOf :: "(string \<rightharpoonup> string) \<Rightarrow> string \<Rightarrow> string" where
  "networkNameOf networkNames ident = (case networkNames ident of None \<Rightarrow> '''' | Some name \<Rightarrow> name)"

definition parsedAddresses :: "Externals \<Rightarrow> string list \<Rightarrow> string set" where
  "parsedAddresses ext addrs = set (List.map_filter (ParseCIDR ext) addrs)"

definition parseErrors :: "Externals \<Rightarrow> string list \<Rightarrow> LogEntry list" where
  "parseErrors ext addrs =
     map Log_unable_to_parse_CIDR (filter (\<lambda>addr. ParseCIDR ext addr = None) addrs)"

definition attachmentHosts :: "Externals \<Rightarrow> (string \<rightharpoonup> string) \<Rightarrow> NetworkAttachment \<Rightarrow> string set" where
  "attachmentHosts ext networkNames attachment =
     (let networkName =
            (case NetworkAttachment_Network attachment of
               None \<Rightarrow> ''''
             | Some network \<Rightarrow> networkNameOf networkNames (Network_ID network))
      in set (Aliases attachment)
         \<union> set (map (\<lambda>alias. alias @ ''.'' @ networkName) (Aliases attachment))
         \<union> parsedAddresses ext (Addresses attachment))"

definition virtualIPHosts :: "Externals \<Rightarrow> (string \<rightharpoonup> string) \<Rightarrow> VirtualIP \<Rightarrow> string set" where
  "virtualIPHosts ext networkNames virtualIP =
     (let networkName = networkNameOf networkNames (VirtualIP_NetworkID virtualIP)
      in {VirtualIP_Name virtualIP, VirtualIP_Name virtualIP @ ''.'' @ networkName}
         \<union> parsedAddresses ext [VirtualIP_Addr virtualIP])"

definition getTaskCertHosts ::
  "Externals \<Rightarrow> Store \<Rightarrow> assignmentSet \<Rightarrow> Task \<Rightarrow> error + (assignmentSet \<times> string set)" where
  "getTaskCertHosts ext readTx a task =
     (if Task_Networks task = [] then Inr (a, {})
      else case networkNamesOf (Task_Networks task) Map.empty of
        Inl e \<Rightarrow> Inl e
      | Inr networkNames \<Rightarrow>
          (let virtualIPs = (case Task_Endpoint task of None \<Rightarrow> [] | Some ep \<Rightarrow> VirtualIPs ep);
               hostSet = (\<Union>attachment \<in> set (Task_Networks task). attachmentHosts ext networkNames attachment)
                         \<union> (\<Union>virtualIP \<in> set virtualIPs. virtualIPHosts ext networkNames virtualIP);
               a = a \<lparr> log := log a
                          @ concat (map (\<lambda>attachment. parseErrors ext (Addresses attachment)) (Task_Networks task))
                          @ parseErrors ext (map VirtualIP_Addr virtualIPs) \<rparr>
           in if Task_ServiceID task \<noteq> ''''
              then (case GetService readTx (Task_ServiceID task) of
                      None \<Rightarrow> Inr (logf a (Log_service_not_found (Task_ID task) (Task_ServiceID task)), hostSet)
                    | Some service \<Rightarrow>
                        Inr (a, hostSet
                               \<union> insert (Service_Name service)
                                   ((\<lambda>networkName. Service_Name service @ ''.'' @ networkName)
                                      ` (networkNameOf networkNames
                                           ` set (map Network_ID
                                                (List.map_filter NetworkAttachment_Network (Task_Networks task)))))))
              else Inr (a, hostSet)))"

text \<open>
  The block that the source repeats for each synthesized config: make the entry and the
  Update change when nothing uses the key yet, then add the task to the users.
\<close>

definition assignMaterializedConfig :: "assignmentSet \<Rightarrow> string \<Rightarrow> bytes \<Rightarrow> string \<Rightarrow> assignmentSet" where
  "assignMaterializedConfig a configID dat taskID =
     (let mapKey = (ResourceType_CONFIG, configID);
          a = (if usersOf a mapKey = {}
               then a \<lparr> tasksUsingDependency := (tasksUsingDependency a)(mapKey \<mapsto> {}),
                        changes := (changes a)(mapKey \<mapsto>
                           updateChange (Assignment_Config (Config_with_data configID dat))) \<rparr>
               else a)
      in addUser a mapKey taskID)"

definition addCertIssuanceDependencies ::
  "Externals \<Rightarrow> Store \<Rightarrow> Task \<Rightarrow> string set \<Rightarrow> assignmentSet \<Rightarrow> CertificateIssuance \<Rightarrow> assignmentSet" where
  "addCertIssuanceDependencies ext readTx task hosts a certIssuance =
     (let caID = CertificateAuthorityID certIssuance
      in case GetCA readTx caID of
           None \<Rightarrow> logf a (Log_certificate_authority_not_found caID (Task_ID task))
         | Some certAuthority \<Rightarrow>
             (case IssueCertificate ext certAuthority hosts (Task_ID task) of
                Inl LoadRootCA \<Rightarrow> logf a (Log_unable_to_load_Root_CA caID (Task_ID task))
              | Inl GenerateCSR \<Rightarrow> logf a (Log_unable_to_generate_CSR caID (Task_ID task))
              | Inl GetSigner \<Rightarrow> logf a (Log_unable_to_get_signer caID (Task_ID task))
              | Inl Sign \<Rightarrow> logf a (Log_unable_to_sign_certificate caID (Task_ID task))
              | Inr (key, cert) \<Rightarrow>
                  (let a = assignMaterializedConfig a (Task_ID task @ ''-'' @ caID @ ''-issue-ca'')
                             (Cert certAuthority) (Task_ID task);
                       a = assignMaterializedConfig a (Task_ID task @ ''-'' @ caID @ ''-issue-key'')
                             key (Task_ID task);
                       a = assignMaterializedConfig a (Task_ID task @ ''-'' @ caID @ ''-issue-cert'')
                             cert (Task_ID task)
                   in a)))"

text \<open>
  Modelled from the spec: \<open>store.FindServices\<close> with \<open>store.ByPeerGroup\<close> belongs to the
  absent service table file; it finds all services in the given peer group. A failing
  find is the \<open>Inl\<close> that \<open>maybeAddStaticServiceDependencies\<close> logs.
\<close>

definition FindServices_ByPeerGroup :: "Store \<Rightarrow> string \<Rightarrow> StoreError + Service list" where
  "FindServices_ByPeerGroup readTx peerGroup =
     Inr (filter (\<lambda>s. case GetStatic (Service_Spec s) of
                        None \<Rightarrow> False
                      | Some static \<Rightarrow> StaticService_PeerGroup static = peerGroup)
            (tableService readTx))"

text \<open>
  The first address of a service's static network attachment:
  \<open>service.StaticInfo.NetworkAttachment.Addresses[0]\<close>, with its two pointer dereferences
  and its index.
\<close>

definition staticAddress :: "Service \<Rightarrow> error + string" where
  "staticAddress service =
     (case Service_StaticInfo service of
        None \<Rightarrow> Inl NilPointerDereference
      | Some info \<Rightarrow>
          (case StaticInfo_NetworkAttachment info of
             None \<Rightarrow> Inl NilPointerDereference
           | Some attachment \<Rightarrow>
               (case Addresses attachment of
                  [] \<Rightarrow> Inl IndexOutOfRange
                | addr # rest \<Rightarrow> Inr addr)))"

text \<open>
  The loop over the peer services. The test before the address is read looks at the
  attachment of \<open>service\<close>, the task's own service.
\<close>

fun peerAddrsLoop ::
  "Externals \<Rightarrow> Service \<Rightarrow> assignmentSet \<Rightarrow> (string \<rightharpoonup> string) \<Rightarrow> Service list
     \<Rightarrow> error + (assignmentSet \<times> (string \<rightharpoonup> string))" where
  "peerAddrsLoop ext service a peerAddrs [] = Inr (a, peerAddrs)"
| "peerAddrsLoop ext service a peerAddrs (peerService # peerServices) =
     (if Service_ID peerService = Service_ID service
      then peerAddrsLoop ext service a peerAddrs peerServices
      else case Service_StaticInfo service of
             None \<Rightarrow> Inl NilPointerDereference
           | Some info \<Rightarrow>
               if StaticInfo_NetworkAttachment info \<noteq> None
               then (case staticAddress peerService of
                       Inl e \<Rightarrow> Inl e
                     | Inr addr \<Rightarrow>
                         (let peerName = Service_Name peerService;
                              (a', peerAddr) = deCIDR ext a addr
                          in peerAddrsLoop ext service a' (peerAddrs(peerName \<mapsto> peerAddr)) peerServices))
               else peerAddrsLoop ext service a peerAddrs peerServices)"

definition maybeAddStaticServiceDependencies ::
  "Externals \<Rightarrow> Store \<Rightarrow> assignmentSet \<Rightarrow> Task \<Rightarrow> error + assignmentSet" where
  "maybeAddStaticServiceDependencies ext readTx a t =
     (if Task_ServiceID t = '''' then Inr a
      else case GetService readTx (Task_ServiceID t) of
        None \<Rightarrow> Inr a
      | Some service \<Rightarrow>
          (case GetStatic (Service_Spec service) of
             None \<Rightarrow> Inr a
           | Some static \<Rightarrow>
               (case FindServices_ByPeerGroup readTx (StaticService_PeerGroup static) of
                  Inl err \<Rightarrow> Inr (logf a (Log_unable_to_find_services (StaticService_PeerGroup static)))
                | Inr peerServices \<Rightarrow>
                    (case peerAddrsLoop ext service a Map.empty peerServices of
                       Inl e \<Rightarrow> Inl e
                     | Inr (a, peerAddrs) \<Rightarrow>
                         (case staticAddress service of
                            Inl e \<Rightarrow> Inl e
                          | Inr addr \<Rightarrow>
                              (let selfName = Service_Name service;
                                   (a, selfAddr) = deCIDR ext a addr;
                                   cfg = \<lparr> SelfName = selfName, SelfAddr = selfAddr, Peers = peerAddrs \<rparr>;
                                   configData = MarshalIndent ext cfg;
                                   configID = Task_ID t @ ''-peer-group''
                               in Inr (assignMaterializedConfig a configID configData (Task_ID t))))))))"

definition addTaskDependencies :: "Externals \<Rightarrow> Store \<Rightarrow> assignmentSet \<Rightarrow> Task \<Rightarrow> error + assignmentSet" where
  "addTaskDependencies ext readTx a t =
     (let a = foldl (addResourceReference ext readTx t) a (ResourceReferences (Task_Spec t));
          container = GetContainer (Task_Spec t);
          secrets = (case container of None \<Rightarrow> [] | Some c \<Rightarrow> Secrets c);
          a = foldl (addSecretReference ext readTx t) a secrets;
          configs = (case container of None \<Rightarrow> [] | Some c \<Rightarrow> Configs c);
          a = foldl (addConfigReference readTx t) a configs;
          certIssuances = (case container of None \<Rightarrow> [] | Some c \<Rightarrow> CertificateIssuances c)
      in case (if certIssuances \<noteq> []
               then (case getTaskCertHosts ext readTx a t of
                       Inl e \<Rightarrow> Inl e
                     | Inr (a, hosts) \<Rightarrow>
                         Inr (foldl (addCertIssuanceDependencies ext readTx t hosts) a certIssuances))
               else Inr a) of
           Inl e \<Rightarrow> Inl e
         | Inr a \<Rightarrow> maybeAddStaticServiceDependencies ext readTx a t)"

text \<open>
  \<open>releaseDependency\<close>. Deleting from a nil inner map does nothing; an empty or missing
  entry after the deletion drops the key and records the Remove change.
\<close>

definition releaseDependency ::
  "assignmentSet \<Rightarrow> typeAndID \<Rightarrow> Assignment_Item \<Rightarrow> string \<Rightarrow> assignmentSet \<times> bool" where
  "releaseDependency a mapKey assignment taskID =
     (let a = (case tasksUsingDependency a mapKey of
                 None \<Rightarrow> a
               | Some users \<Rightarrow>
                   a \<lparr> tasksUsingDependency := (tasksUsingDependency a)(mapKey \<mapsto> users - {taskID}) \<rparr>)
      in if usersOf a mapKey \<noteq> {} then (a, False)
         else (a \<lparr> tasksUsingDependency := (tasksUsingDependency a)(mapKey := None),
                   changes := (changes a)(mapKey \<mapsto> removeChange assignment) \<rparr>, True))"

text \<open>
  The loops of \<open>releaseTaskDependencies\<close> carry the set and the flag \<open>modified\<close>. A
  resource reference of another type than secret or config is logged and skipped.
\<close>

definition releaseKey :: "string \<Rightarrow> assignmentSet \<times> bool \<Rightarrow> typeAndID \<Rightarrow> assignmentSet \<times> bool" where
  "releaseKey taskID am mapKey =
     (let assignment =
            (case fst mapKey of
               ResourceType_SECRET \<Rightarrow> Assignment_Secret (Secret_with_ID (snd mapKey))
             | _ \<Rightarrow> Assignment_Config (Config_with_ID (snd mapKey)));
          (a, released) = releaseDependency (fst am) mapKey assignment taskID
      in (a, released \<or> snd am))"

definition releaseResourceReference ::
  "string \<Rightarrow> assignmentSet \<times> bool \<Rightarrow> ResourceReference \<Rightarrow> assignmentSet \<times> bool" where
  "releaseResourceReference taskID am resourceRef =
     (case ResourceType resourceRef of
        ResourceType_TASK \<Rightarrow> (logf (fst am) (Log_invalid_resource_type (ResourceType resourceRef)), snd am)
      | _ \<Rightarrow> releaseKey taskID am (ResourceType resourceRef, ResourceID resourceRef))"

definition releaseTaskDependencies :: "assignmentSet \<Rightarrow> Task \<Rightarrow> assignmentSet \<times> bool" where
  "releaseTaskDependencies a t =
     (let am = foldl (releaseResourceReference (Task_ID t)) (a, False) (ResourceReferences (Task_Spec t));
          container = GetContainer (Task_Spec t);
          secrets = (case container of None \<Rightarrow> [] | Some c \<Rightarrow> Secrets c);
          am = foldl (releaseKey (Task_ID t)) am (map (\<lambda>ref. (ResourceType_SECRET, SecretID ref)) secrets);
          configs = (case container of None \<Rightarrow> [] | Some c \<Rightarrow> Configs c);
          am = foldl (releaseKey (Task_ID t)) am (map (\<lambda>ref. (ResourceType_CONFIG, ConfigID ref)) configs);
          am = foldl (releaseKey (Task_ID t)) am
                 (map (\<lambda>ref. (ResourceType_CONFIG, ConfigID ref)) (MaterializedConfigs t))
      in am)"

definition storeTask :: "assignmentSet \<Rightarrow> Task \<Rightarrow> assignmentSet" where
  "storeTask a t =
     a \<lparr> tasksMap := (tasksMap a)(Task_ID t \<mapsto> t),
         changes := (changes a)((ResourceType_TASK, Task_ID t) \<mapsto> updateChange (Assignment_Task t)) \<rparr>"

definition addOrUpdateTask ::
  "Externals \<Rightarrow> Store \<Rightarrow> assignmentSet \<Rightarrow> Task \<Rightarrow> error + (assignmentSet \<times> bool)" where
  "addOrUpdateTask ext readTx a t =
     (if TaskState_rank (State (Status t)) < TaskState_rank TaskStateAssigned then Inr (a, False)
      else case tasksMap a (Task_ID t) of
        Some oldTask \<Rightarrow>
          if TasksEqualStable ext oldTask t
             \<and> TaskState_rank (State (Status t)) > TaskState_rank TaskStateAssigned
          then (let a = a \<lparr> tasksMap := (tasksMap a)(Task_ID t \<mapsto> t) \<rparr>
                in if TaskState_rank (State (Status t)) > TaskState_rank TaskStateRunning
                   then Inr (releaseTaskDependencies a t)
                   else Inr (a, False))
          else Inr (storeTask a t, True)
      | None \<Rightarrow>
          if TaskState_rank (State (Status t)) \<le> TaskState_rank TaskStateRunning
          then (case addTaskDependencies ext readTx a t of
                  Inl e \<Rightarrow> Inl e
                | Inr a \<Rightarrow> Inr (storeTask a t, True))
          else Inr (storeTask a t, True))"

definition removeTask :: "assignmentSet \<Rightarrow> Task \<Rightarrow> assignmentSet \<times> bool" where
  "removeTask a t =
     (if tasksMap a (Task_ID t) = None then (a, False)
      else
        let a = a \<lparr> changes := (changes a)((ResourceType_TASK, Task_ID t) \<mapsto>
                       removeChange (Assignment_Task (Task_with_ID (Task_ID t)))) \<rparr>;
            a = a \<lparr> tasksMap := (tasksMap a)(Task_ID t := None) \<rparr>;
            (a, modified) = releaseTaskDependencies a t
        in (a, True))"

text \<open>
  \<open>message\<close> hands out the pending changes, in the source as a slice in map order, here as
  the map itself, and starts a fresh map.
\<close>

definition message :: "assignmentSet \<Rightarrow> (typeAndID \<rightharpoonup> AssignmentChange) \<times> assignmentSet" where
  "message a = (changes a, a \<lparr> changes := Map.empty \<rparr>)"

text \<open>A session of the dispatcher: calls of the three methods, one after the other.\<close>

datatype Call = AddOrUpdateTask Store Task | RemoveTask Task | Message

fun call :: "Externals \<Rightarrow> assignmentSet \<Rightarrow> Call \<Rightarrow> error + assignmentSet" where
  "call ext a (AddOrUpdateTask readTx t) =
     (case addOrUpdateTask ext readTx a t of Inl e \<Rightarrow> Inl e | Inr (a', modified) \<Rightarrow> Inr a')"
| "call ext a (RemoveTask t) = Inr (fst (removeTask a t))"
| "call ext a Message = Inr (snd (message a))"

fun calls :: "Externals \<Rightarrow> assignmentSet \<Rightarrow> Call list \<Rightarrow> error + assignmentSet" where
  "calls ext a [] = Inr a"
| "calls ext a (c # cs) = (case call ext a c of Inl e \<Rightarrow> Inl e | Inr a' \<Rightarrow> calls ext a' cs)"

section \<open>Notions for the properties of the assignment set\<close>

text \<open>
  The keys of the dependencies that a task declares, in the order of the loops: resource
  references of type secret or config, the secrets and the configs of the container.
  \<open>releaseTaskDependencies\<close> releases these and the materialized configs of the task.
\<close>

definition declaredKeys :: "Task \<Rightarrow> typeAndID list" where
  "declaredKeys t =
     map (\<lambda>ref. (ResourceType ref, ResourceID ref))
         (filter (\<lambda>ref. ResourceType ref \<noteq> ResourceType_TASK) (ResourceReferences (Task_Spec t)))
     @ map (\<lambda>ref. (ResourceType_SECRET, SecretID ref))
         (case GetContainer (Task_Spec t) of None \<Rightarrow> [] | Some c \<Rightarrow> Secrets c)
     @ map (\<lambda>ref. (ResourceType_CONFIG, ConfigID ref))
         (case GetContainer (Task_Spec t) of None \<Rightarrow> [] | Some c \<Rightarrow> Configs c)"

definition releasedKeys :: "Task \<Rightarrow> typeAndID list" where
  "releasedKeys t =
     declaredKeys t @ map (\<lambda>ref. (ResourceType_CONFIG, ConfigID ref)) (MaterializedConfigs t)"

text \<open>The minimal payload of the Remove change of a key.\<close>

definition releaseItem :: "typeAndID \<Rightarrow> Assignment_Item" where
  "releaseItem mapKey =
     (case fst mapKey of
        ResourceType_SECRET \<Rightarrow> Assignment_Secret (Secret_with_ID (snd mapKey))
      | _ \<Rightarrow> Assignment_Config (Config_with_ID (snd mapKey)))"

text \<open>
  What materializing a declared key gives: the secret from \<open>secret\<close>, the config from the
  store, or nothing on failure; and the line that a failed attempt logs.
\<close>

definition materialize :: "Externals \<Rightarrow> Store \<Rightarrow> Task \<Rightarrow> typeAndID \<Rightarrow> Assignment_Item option" where
  "materialize ext readTx t mapKey =
     (case fst mapKey of
        ResourceType_SECRET \<Rightarrow> map_option Assignment_Secret (secret ext readTx t (snd mapKey))
      | ResourceType_CONFIG \<Rightarrow> map_option Assignment_Config (GetConfig readTx (snd mapKey))
      | ResourceType_TASK \<Rightarrow> None)"

definition failureEntry :: "typeAndID \<Rightarrow> LogEntry" where
  "failureEntry mapKey =
     (case fst mapKey of
        ResourceType_SECRET \<Rightarrow> Log_failed_to_fetch_secret (snd mapKey)
      | ResourceType_CONFIG \<Rightarrow> Log_config_not_found (snd mapKey)
      | ResourceType_TASK \<Rightarrow> Log_invalid_resource_type ResourceType_TASK)"

text \<open>
  The effect of releasing the keys \<open>K\<close> for the task \<open>taskID\<close>, between a set with its
  \<open>modified\<close> flag before and after: the task leaves the users of each key of \<open>K\<close>, a key
  of \<open>K\<close> left without users gets its Remove change, the flag records whether that
  happened, and nothing else moves.
\<close>

definition released_by :: "string \<Rightarrow> typeAndID set \<Rightarrow> assignmentSet \<times> bool \<Rightarrow> assignmentSet \<times> bool \<Rightarrow> bool" where
  "released_by taskID K am am' \<longleftrightarrow>
     (\<forall>k. usersOf (fst am') k = (if k \<in> K then usersOf (fst am) k - {taskID} else usersOf (fst am) k))
     \<and> (\<forall>k. changes (fst am') k
              = (if k \<in> K \<and> usersOf (fst am) k \<subseteq> {taskID} then Some (removeChange (releaseItem k))
                 else changes (fst am) k))
     \<and> tasksMap (fst am') = tasksMap (fst am)
     \<and> (snd am' \<longleftrightarrow> snd am \<or> (\<exists>k \<in> K. usersOf (fst am) k \<subseteq> {taskID}))"

text \<open>
  What every step of \<open>addTaskDependencies\<close> for the task \<open>taskID\<close> keeps, between the set
  before and after: the tasks stay, the users of a key stay or gain the task, a key that
  had users keeps its pending change, a change is only ever replaced by an Update of a
  secret or config key, a key of type task without users stays so, and the log grows by
  lines among which there is no failed materialization of a key that had users.
\<close>

definition added_by :: "string \<Rightarrow> assignmentSet \<Rightarrow> assignmentSet \<Rightarrow> bool" where
  "added_by taskID a a' \<longleftrightarrow>
     tasksMap a' = tasksMap a
     \<and> (\<forall>k. usersOf a' k = usersOf a k \<or> usersOf a' k = insert taskID (usersOf a k))
     \<and> (\<forall>k. usersOf a k \<noteq> {} \<longrightarrow> changes a' k = changes a k)
     \<and> (\<forall>k. changes a' k = changes a k
              \<or> (fst k \<noteq> ResourceType_TASK \<and> (\<exists>item. changes a' k = Some (updateChange item))))
     \<and> (\<forall>k. fst k = ResourceType_TASK \<longrightarrow> usersOf a k = {} \<longrightarrow> usersOf a' k = {})
     \<and> (\<exists>new. log a' = log a @ new
                \<and> (\<forall>k. fst k \<noteq> ResourceType_TASK \<longrightarrow> usersOf a k \<noteq> {} \<longrightarrow> failureEntry k \<notin> set new))"

definition is_failureEntry :: "LogEntry \<Rightarrow> bool" where
  "is_failureEntry entry =
     (case entry of
        Log_failed_to_fetch_secret ident \<Rightarrow> True
      | Log_config_not_found ident \<Rightarrow> True
      | _ \<Rightarrow> False)"

text \<open>
  The three loops over the declared references run the same body on a key of type secret
  or config: materialize the key when nothing uses it yet, then add the task to its
  users.
\<close>

definition addDeclaredKey :: "Externals \<Rightarrow> Store \<Rightarrow> Task \<Rightarrow> assignmentSet \<Rightarrow> typeAndID \<Rightarrow> assignmentSet" where
  "addDeclaredKey ext readTx t a mapKey =
     addUser (if usersOf a mapKey = {}
              then (case fst mapKey of
                      ResourceType_SECRET \<Rightarrow> assignSecret ext a readTx mapKey t
                    | _ \<Rightarrow> assignConfig a readTx mapKey)
              else a)
       mapKey (Task_ID t)"

text \<open>The users of exactly the keys \<open>K\<close> gain the task; the users of every other key stay.\<close>

definition users_added :: "string \<Rightarrow> typeAndID set \<Rightarrow> assignmentSet \<Rightarrow> assignmentSet \<Rightarrow> bool" where
  "users_added taskID K a a' \<longleftrightarrow>
     (\<forall>k. usersOf a' k = (if k \<in> K then insert taskID (usersOf a k) else usersOf a k))"

text \<open>
  A step that only writes log lines, none of them a failed materialization of a secret or
  config.
\<close>

definition logged_only :: "assignmentSet \<Rightarrow> assignmentSet \<Rightarrow> bool" where
  "logged_only a a' \<longleftrightarrow>
     tasksMap a' = tasksMap a \<and> tasksUsingDependency a' = tasksUsingDependency a
     \<and> changes a' = changes a
     \<and> (\<exists>new. log a' = log a @ new \<and> (\<forall>e \<in> set new. \<not> is_failureEntry e))"

text \<open>
  The keys that the certificate issuances and the peer group synthesis of
  \<open>addTaskDependencies\<close> register for a task: the three config keys of every issuance
  whose authority is in the store and whose certificate is issued, and the peer group
  key when the task's service is in the store and static and the peer services are
  found. \<open>addedKeys\<close> are all keys that a run of \<open>addTaskDependencies\<close> registers.
\<close>

definition certHosts :: "Externals \<Rightarrow> Store \<Rightarrow> Task \<Rightarrow> string set" where
  "certHosts ext readTx t =
     (case getTaskCertHosts ext readTx newAssignmentSet t of
        Inl e \<Rightarrow> {}
      | Inr (a, hosts) \<Rightarrow> hosts)"

definition issuanceKeys :: "Externals \<Rightarrow> Store \<Rightarrow> Task \<Rightarrow> string set \<Rightarrow> CertificateIssuance \<Rightarrow> typeAndID set" where
  "issuanceKeys ext readTx t hosts certIssuance =
     (case GetCA readTx (CertificateAuthorityID certIssuance) of
        None \<Rightarrow> {}
      | Some certAuthority \<Rightarrow>
          (case IssueCertificate ext certAuthority hosts (Task_ID t) of
             Inl e \<Rightarrow> {}
           | Inr keyAndCert \<Rightarrow>
               (\<lambda>ident. (ResourceType_CONFIG, ident)) ` set (issuanceConfigIDs (Task_ID t) certIssuance)))"

definition certKeys :: "Externals \<Rightarrow> Store \<Rightarrow> Task \<Rightarrow> typeAndID set" where
  "certKeys ext readTx t =
     (\<Union>certIssuance \<in> set (taskCertificateIssuances (Task_Spec t)).
        issuanceKeys ext readTx t (certHosts ext readTx t) certIssuance)"

definition staticKeys :: "Store \<Rightarrow> Task \<Rightarrow> typeAndID set" where
  "staticKeys readTx t =
     (if Task_ServiceID t = '''' then {}
      else case GetService readTx (Task_ServiceID t) of
        None \<Rightarrow> {}
      | Some service \<Rightarrow>
          (case GetStatic (Service_Spec service) of
             None \<Rightarrow> {}
           | Some static \<Rightarrow>
               (case FindServices_ByPeerGroup readTx (StaticService_PeerGroup static) of
                  Inl err \<Rightarrow> {}
                | Inr peerServices \<Rightarrow> {(ResourceType_CONFIG, Task_ID t @ ''-peer-group'')})))"

definition addedKeys :: "Externals \<Rightarrow> Store \<Rightarrow> Task \<Rightarrow> typeAndID set" where
  "addedKeys ext readTx t = set (declaredKeys t) \<union> certKeys ext readTx t \<union> staticKeys readTx t"

text \<open>No key of type task has users: the assignment set never registers one.\<close>

definition no_task_users :: "assignmentSet \<Rightarrow> bool" where
  "no_task_users a \<longleftrightarrow> (\<forall>ident. usersOf a (ResourceType_TASK, ident) = {})"

section \<open>Example inputs\<close>

definition demo_join :: "string \<Rightarrow> string \<Rightarrow> string" where
  "demo_join dir file = dir @ ''/'' @ file"

definition demo_env :: TaskEnv where
  "demo_env = \<lparr> NewID = ''T1'', Now = \<lparr> Seconds = 100, Nanos = 0 \<rparr>, filepath_Join = demo_join \<rparr>"

definition demo_container :: ContainerSpec where
  "demo_container =
     \<lparr> ContainerSpec_Image = ''img:1'', Command = [], Env = [], Secrets = [], Configs = [],
       CertificateIssuances = [], ContainerSpec_PullOptions = None \<rparr>"

definition demo_taskspec :: TaskSpec where
  "demo_taskspec =
     \<lparr> Runtime = TaskSpec_Container (Some demo_container), TaskSpec_Placement = None,
       TaskSpec_LogDriver = None, TaskSpec_Networks = [], ForceUpdate = 0,
       ResourceReferences = [] \<rparr>"

definition demo_attachment :: "string \<Rightarrow> NetworkAttachment" where
  "demo_attachment addr =
     \<lparr> NetworkAttachment_Network = Some \<lparr> Network_ID = ''net1'', Network_Name = ''peernet'' \<rparr>,
       Addresses = [addr], Aliases = [] \<rparr>"

definition demo_static_service :: "string \<Rightarrow> string \<Rightarrow> string \<Rightarrow> TaskSpec \<Rightarrow> Service" where
  "demo_static_service sid name addr spec =
     \<lparr> Service_ID = sid,
       Service_Spec =
         \<lparr> ServiceSpec_Annotations = \<lparr> Annotations_Name = name, Annotations_Labels = [] \<rparr>,
           ServiceSpec_Task = spec,
           Mode = ServiceSpec_Static (Some \<lparr> StaticService_PeerGroup = ''g1'', PeerNetwork = ''net1'' \<rparr>),
           ServiceSpec_Endpoint = None \<rparr>,
       Service_SpecVersion = None,
       Service_StaticInfo =
         Some \<lparr> StaticInfo_NodeID = ''N1'', StaticInfo_Message = '''',
                StaticInfo_NetworkAttachment = Some (demo_attachment addr) \<rparr> \<rparr>"

definition demo_service :: Service where
  "demo_service = demo_static_service ''S1'' ''alpha'' ''10.0.0.4/24'' demo_taskspec"

definition demo_task :: "string \<Rightarrow> TaskSpec \<Rightarrow> TaskState \<Rightarrow> Task" where
  "demo_task tid spec st =
     \<lparr> Task_ID = tid, Task_Spec = spec, Task_SpecVersion = None, Task_ServiceID = '''',
       Slot = 0, Task_NodeID = ''N1'',
       ServiceAnnotations = \<lparr> Annotations_Name = '''', Annotations_Labels = [] \<rparr>,
       Status = \<lparr> Status_Timestamp = None, State = st, Message = '''', AppliedAt = None \<rparr>,
       DesiredState = TaskStateRunning, Task_Networks = [], Task_Endpoint = None,
       Task_LogDriver = None, MaterializedConfigs = [] \<rparr>"

definition demo_matches :: "string list \<Rightarrow> Node \<Rightarrow> bool" where
  "demo_matches constraints node = (constraints = [])"

definition version7 :: Version where
  "version7 = \<lparr> Index = 7 \<rparr>"

definition img2_taskspec :: TaskSpec where
  "img2_taskspec =
     demo_taskspec \<lparr> Runtime := TaskSpec_Container (Some (demo_container \<lparr> ContainerSpec_Image := ''img:2'' \<rparr>)) \<rparr>"

definition stamped_task :: "string \<Rightarrow> Timestamp option \<Rightarrow> Timestamp option \<Rightarrow> Task" where
  "stamped_task tid ts applied =
     (demo_task tid demo_taskspec TaskStateRunning)
       \<lparr> Status := \<lparr> Status_Timestamp = ts, State = TaskStateRunning, Message = '''',
                      AppliedAt = applied \<rparr> \<rparr>"

definition less_tasks :: "Task list" where
  "less_tasks =
     [ stamped_task ''Ti'' (Some \<lparr> Seconds = 10, Nanos = 0 \<rparr>) None,
       stamped_task ''Tj'' (Some \<lparr> Seconds = 5, Nanos = 0 \<rparr>) (Some \<lparr> Seconds = 20, Nanos = 0 \<rparr>) ]"

definition pg_ALPHA :: PeerGroup where
  "pg_ALPHA = \<lparr> PeerGroup_ID = ''pg1'', PeerGroup_Name = ''ALPHA'', PeerGroup_Network = ''net1'' \<rparr>"

definition pg_beta :: PeerGroup where
  "pg_beta = \<lparr> PeerGroup_ID = ''pg1'', PeerGroup_Name = ''beta'', PeerGroup_Network = ''net1'' \<rparr>"

definition alpha_then_beta :: "StoreOp list" where
  "alpha_then_beta = [OpCreateService demo_service, OpCreatePeerGroup pg_beta]"

definition cert_container :: ContainerSpec where
  "cert_container =
     demo_container \<lparr> CertificateIssuances :=
       [ \<lparr> CertificateAuthorityID = ''ca1'',
           Directory = Some \<lparr> FileTarget_Name = ''/certs'', FileTarget_UID = ''0'',
                              FileTarget_GID = ''0'', FileTarget_Mode = 292 \<rparr> \<rparr> ] \<rparr>"

definition cert_taskspec :: TaskSpec where
  "cert_taskspec = demo_taskspec \<lparr> Runtime := TaskSpec_Container (Some cert_container) \<rparr>"

definition cert_service :: Service where
  "cert_service = demo_static_service ''S1'' ''alpha'' ''10.0.0.4/24'' cert_taskspec"

definition store_with :: "Service list \<Rightarrow> Store" where
  "store_with svcs = emptyStore \<lparr> tableService := svcs \<rparr>"

definition unpinned_service :: Service where
  "unpinned_service =
     demo_service \<lparr> Service_ID := ''S0'',
       Service_StaticInfo := Some \<lparr> StaticInfo_NodeID = '''', StaticInfo_Message = '''',
                                   StaticInfo_NetworkAttachment = None \<rparr> \<rparr>"

definition demo_parseCIDR :: "string \<Rightarrow> string option" where
  "demo_parseCIDR addr =
     (if addr = ''10.0.0.4/24'' then Some ''10.0.0.4''
      else if addr = ''10.0.0.5/24'' then Some ''10.0.0.5''
      else None)"

definition demo_marshal :: "peerGroupConfig \<Rightarrow> bytes" where
  "demo_marshal cfg =
     SelfName cfg @ ''='' @ SelfAddr cfg @ '';beta=''
       @ (case Peers cfg ''beta'' of None \<Rightarrow> ''-'' | Some addr \<Rightarrow> addr)"

definition demo_ext :: Externals where
  "demo_ext =
     \<lparr> TasksEqualStable = (\<lambda>old new. old \<lparr> Status := Status new \<rparr> = new),
       ParseCIDR = demo_parseCIDR,
       MarshalIndent = demo_marshal,
       SecretDriver_Get = (\<lambda>driver spec task. None),
       ValidateSecretPayload = (\<lambda>val. val \<noteq> []),
       IssueCertificate = (\<lambda>certAuthority hosts taskID. Inl LoadRootCA) \<rparr>"

definition secret_X :: Secret where
  "secret_X =
     \<lparr> Secret_ID = ''X'',
       Secret_Spec = \<lparr> SecretSpec_Name = ''x'', SecretSpec_Data = ''hunter2'', SecretSpec_Driver = None \<rparr> \<rparr>"

definition secret_store :: Store where
  "secret_store = emptyStore \<lparr> tableSecret := [secret_X] \<rparr>"

definition secret_taskspec :: TaskSpec where
  "secret_taskspec =
     demo_taskspec \<lparr> Runtime := TaskSpec_Container
       (Some (demo_container \<lparr> Secrets := [\<lparr> SecretID = ''X'', SecretName = ''x'' \<rparr>] \<rparr>)) \<rparr>"

definition task_T :: Task where
  "task_T = demo_task ''T'' secret_taskspec TaskStateAssigned"

definition task_T' :: Task where
  "task_T' = demo_task ''U'' secret_taskspec TaskStateAssigned"

definition key_X :: typeAndID where
  "key_X = (ResourceType_SECRET, ''X'')"

section \<open>Properties of the task model\<close>

lemma issuanceLoop_total:
  "\<forall>ci \<in> set cis. Directory ci \<noteq> None \<Longrightarrow> \<exists>refs. issuanceLoop join tid acc cis = Inr refs"
  by (induction cis arbitrary: acc) (auto simp: issuanceConfigRefs_def Let_def split: option.splits)

text \<open>
  C9. \<open>NewTask\<close> returns a task whenever every certificate issuance of the service's
  container spec has a directory, and every task it returns has the service's ID as
  \<open>ServiceID\<close>, the given slot and node ID, desired state Running and state New.
\<close>

theorem NewTask_fields:
  "((\<forall>ci \<in> set (case GetContainer (ServiceSpec_Task (Service_Spec s)) of
                     None \<Rightarrow> [] | Some container \<Rightarrow> CertificateIssuances container).
        Directory ci \<noteq> None)
     \<longrightarrow> (\<exists>task. NewTask env c s slot node = Inr task))
   \<and> (\<forall>task. NewTask env c s slot node = Inr task \<longrightarrow>
         Task_ServiceID task = Service_ID s \<and> Slot task = slot \<and> Task_NodeID task = node
         \<and> DesiredState task = TaskStateRunning \<and> State (Status task) = TaskStateNew)"
proof (rule conjI, rule impI)
  assume dirs: "\<forall>ci \<in> set (case GetContainer (ServiceSpec_Task (Service_Spec s)) of
                     None \<Rightarrow> [] | Some container \<Rightarrow> CertificateIssuances container).
        Directory ci \<noteq> None"
  show "\<exists>task. NewTask env c s slot node = Inr task"
  proof (cases "GetContainer (ServiceSpec_Task (Service_Spec s))")
    case None
    then show ?thesis
      by (simp add: NewTask_def Let_def GetCertificateIssuanceConfigRefs_def)
  next
    case (Some container)
    with dirs have "\<forall>ci \<in> set (CertificateIssuances container). Directory ci \<noteq> None" by simp
    from issuanceLoop_total [OF this] obtain refs
      where "issuanceLoop (filepath_Join env) (NewID env) [] (CertificateIssuances container) = Inr refs"
      by blast
    with Some show ?thesis
      by (simp add: NewTask_def Let_def GetCertificateIssuanceConfigRefs_def)
  qed
next
  show "\<forall>task. NewTask env c s slot node = Inr task \<longrightarrow>
         Task_ServiceID task = Service_ID s \<and> Slot task = slot \<and> Task_NodeID task = node
         \<and> DesiredState task = TaskStateRunning \<and> State (Status task) = TaskStateNew"
    by (auto simp: NewTask_def Let_def split: sum.splits if_splits)
qed

theorem NewTask_fields_witness:
  "\<exists>task. NewTask demo_env None demo_service 0 ''N1'' = Inr task
     \<and> Task_ServiceID task = ''S1'' \<and> Slot task = 0 \<and> Task_NodeID task = ''N1''
     \<and> DesiredState task = TaskStateRunning \<and> State (Status task) = TaskStateNew"
  using NewTask_fields [of demo_service demo_env None 0 "''N1''"]
  by (auto simp: demo_service_def demo_static_service_def demo_taskspec_def demo_container_def)

text \<open>
  C7, as the code has it. \<open>IsTaskDirty\<close> returns false whenever the service and the task
  both carry a spec version and the two versions are equal, whatever the other fields of
  the service, the task and the node are.
\<close>

theorem IsTaskDirty_equal_versions:
  "Service_SpecVersion s = Some v \<Longrightarrow> Task_SpecVersion t = Some v
     \<Longrightarrow> IsTaskDirty matches s t n = Inr False"
  by (simp add: IsTaskDirty_def)

theorem IsTaskDirty_equal_versions_witness:
  "IsTaskDirty demo_matches (demo_service \<lparr> Service_SpecVersion := Some version7 \<rparr>)
     ((demo_task ''T1'' img2_taskspec TaskStateRunning) \<lparr> Task_SpecVersion := Some version7 \<rparr>) None
   = Inr False"
  using IsTaskDirty_equal_versions
    [of "demo_service \<lparr> Service_SpecVersion := Some version7 \<rparr>" version7
        "(demo_task ''T1'' img2_taskspec TaskStateRunning) \<lparr> Task_SpecVersion := Some version7 \<rparr>"
        demo_matches None]
  by simp

text \<open>
  C7 as stated fails when both spec versions are nil: the version test needs both
  pointers set, so the comparison of the specs decides, and the images differ here.
\<close>

theorem IsTaskDirty_nil_versions_counterexample:
  "Service_SpecVersion demo_service = None
   \<and> Task_SpecVersion (demo_task ''T1'' img2_taskspec TaskStateRunning) = None
   \<and> IsTaskDirty demo_matches demo_service (demo_task ''T1'' img2_taskspec TaskStateRunning) None
       = Inr True"
  by (simp add: IsTaskDirty_def IsTaskDirtyPlacementConstraintsOnly_def demo_service_def
        demo_static_service_def demo_task_def img2_taskspec_def demo_taskspec_def
        demo_container_def Let_def)

text \<open>
  C8. At the tasks \<open>i\<close> (timestamp 10 s, never applied) and \<open>j\<close> (timestamp 5 s, applied at
  20 s) the effective timestamps are 10 s and 20 s, so the ordering of the spec puts \<open>i\<close>
  first; the code overwrites \<open>iTimestamp\<close> with the applied time of \<open>j\<close>, compares 20 s
  with 5 s and answers false.
\<close>

theorem TasksByTimestamp_Less_differs:
  "TasksByTimestamp_Less less_tasks 0 1 = Inr False
   \<and> TasksByTimestamp_Less_spec less_tasks 0 1 = Inr True"
  by (simp add: TasksByTimestamp_Less_def TasksByTimestamp_Less_spec_def effectiveTimestamp_def
        less_tasks_def stamped_task_def demo_task_def Let_def)

section \<open>Properties of the peer group table\<close>

lemma tx_lookup_name_None_iff:
  "tx_lookup_name getName table key = None \<longleftrightarrow> (\<forall>obj \<in> set table. ToLower (getName obj) \<noteq> key)"
  by (auto simp: tx_lookup_name_def find_None_iff)

lemma tx_lookup_name_SomeD:
  "tx_lookup_name getName table key = Some obj \<Longrightarrow> obj \<in> set table \<and> ToLower (getName obj) = key"
  by (auto simp: tx_lookup_name_def find_Some_iff)

lemma tx_get_SomeD:
  "tx_get getID table ident = Some obj \<Longrightarrow> obj \<in> set table \<and> getID obj = ident"
  by (auto simp: tx_get_def find_Some_iff)

lemma distinct_map_replace:
  "distinct (map i xs) \<Longrightarrow> distinct (map n xs) \<Longrightarrow> (\<forall>x \<in> set xs. n x = n y \<longrightarrow> i x = i y)
    \<Longrightarrow> distinct (map n (map (\<lambda>old. if i old = i y then y else old) xs))"
proof (induction xs)
  case Nil
  then show ?case by simp
next
  case (Cons a xs)
  then have IH: "distinct (map n (map (\<lambda>old. if i old = i y then y else old) xs))"
    by simp
  have "n (if i a = i y then y else a) \<notin> set (map n (map (\<lambda>old. if i old = i y then y else old) xs))"
  proof
    assume "n (if i a = i y then y else a) \<in> set (map n (map (\<lambda>old. if i old = i y then y else old) xs))"
    then obtain r where r: "r \<in> set xs" "n (if i a = i y then y else a) = n (if i r = i y then y else r)"
      by auto
    from Cons.prems(1) r(1) have ir: "i r \<noteq> i a" by (auto simp: image_iff)
    from Cons.prems(2) r(1) have nr: "n r \<noteq> n a" by (auto simp: image_iff)
    show False
    proof (cases "i a = i y")
      case True
      with ir have "i r \<noteq> i y" by simp
      with r(2) True have "n y = n r" by simp
      with Cons.prems(3) r(1) have "i r = i y" by auto
      with \<open>i r \<noteq> i y\<close> show False by simp
    next
      case False
      show False
      proof (cases "i r = i y")
        case True
        with r(2) False have "n a = n y" by simp
        with Cons.prems(3) have "i a = i y" by auto
        with False show False by simp
      next
        case F2: False
        with r(2) False nr show False by simp
      qed
    qed
  qed
  with IH show ?case by simp
qed

lemma map_id_replace:
  "map i (map (\<lambda>old. if i old = i y then y else old) xs) = map i xs"
  by (induction xs) auto

lemma names_disjoint_step:
  assumes "names_disjoint tx"
  shows "names_disjoint (commitStoreOp tx op)"
proof (cases op)
  case (OpCreateService s)
  with assms show ?thesis
    by (auto simp: commitStoreOp_def CreateService_def tx_create_def names_disjoint_def
          tx_lookup_name_None_iff split: sum.splits if_splits)
next
  case (OpUpdateService s)
  show ?thesis
  proof (cases "UpdateService tx s")
    case (Inl e)
    with OpUpdateService assms show ?thesis by (simp add: commitStoreOp_def)
  next
    case (Inr tx')
    have free: "\<forall>p \<in> set (tablePeerGroup tx). ToLower (PeerGroup_Name p) \<noteq> ToLower (Service_Name s)"
    proof (cases "tx_lookup_name Service_Name (tableService tx) (ToLower (Service_Name s))")
      case None
      with Inr show ?thesis
        by (auto simp: UpdateService_def Let_def tx_lookup_name_None_iff split: if_splits)
    next
      case (Some existing)
      then have "existing \<in> set (tableService tx)" "ToLower (Service_Name existing) = ToLower (Service_Name s)"
        by (auto dest: tx_lookup_name_SomeD)
      with assms show ?thesis unfolding names_disjoint_def by metis
    qed
    from Inr have "tablePeerGroup tx' = tablePeerGroup tx"
      and "set (tableService tx') \<subseteq> insert s (set (tableService tx))"
      by (auto simp: UpdateService_def Let_def tx_update_def split: if_splits sum.splits)
    with free assms have "names_disjoint tx'"
      by (fastforce simp: names_disjoint_def)
    with Inr OpUpdateService show ?thesis by (simp add: commitStoreOp_def)
  qed
next
  case (OpDeleteService i)
  with assms show ?thesis
    by (auto simp: commitStoreOp_def DeleteService_def tx_delete_def names_disjoint_def
          split: sum.splits if_splits)
next
  case (OpCreatePeerGroup p)
  with assms show ?thesis
    by (auto simp: commitStoreOp_def CreatePeerGroup_def tx_create_def names_disjoint_def
          tx_lookup_name_None_iff split: sum.splits if_splits)
next
  case (OpUpdatePeerGroup pg)
  show ?thesis
  proof (cases "UpdatePeerGroup tx pg")
    case (Inl e)
    with OpUpdatePeerGroup assms show ?thesis by (simp add: commitStoreOp_def)
  next
    case (Inr tx')
    have free: "\<forall>s \<in> set (tableService tx). ToLower (Service_Name s) \<noteq> ToLower (PeerGroup_Name pg)"
    proof (cases "tx_lookup_name PeerGroup_Name (tablePeerGroup tx) (ToLower (PeerGroup_Name pg))")
      case None
      with Inr show ?thesis
        by (auto simp: UpdatePeerGroup_def Let_def tx_lookup_name_None_iff split: if_splits)
    next
      case (Some existing)
      then have "existing \<in> set (tablePeerGroup tx)"
        "ToLower (PeerGroup_Name existing) = ToLower (PeerGroup_Name pg)"
        by (auto dest: tx_lookup_name_SomeD)
      with assms show ?thesis unfolding names_disjoint_def by metis
    qed
    from Inr have "tableService tx' = tableService tx"
      and "set (tablePeerGroup tx') \<subseteq> insert pg (set (tablePeerGroup tx))"
      by (auto simp: UpdatePeerGroup_def Let_def tx_update_def split: if_splits sum.splits)
    with free assms have "names_disjoint tx'"
      by (fastforce simp: names_disjoint_def)
    with Inr OpUpdatePeerGroup show ?thesis by (simp add: commitStoreOp_def)
  qed
next
  case (OpDeletePeerGroup i)
  with assms show ?thesis
    by (auto simp: commitStoreOp_def DeletePeerGroup_def tx_delete_def names_disjoint_def
          split: sum.splits if_splits)
qed

lemma peer_groups_unique_step:
  assumes "peer_groups_unique tx"
  shows "peer_groups_unique (commitStoreOp tx op)"
proof (cases op)
  case (OpCreateService s)
  with assms show ?thesis
    by (auto simp: commitStoreOp_def CreateService_def tx_create_def peer_groups_unique_def
          split: sum.splits if_splits)
next
  case (OpUpdateService s)
  with assms show ?thesis
    by (auto simp: commitStoreOp_def UpdateService_def Let_def tx_update_def peer_groups_unique_def
          split: sum.splits if_splits)
next
  case (OpDeleteService i)
  with assms show ?thesis
    by (auto simp: commitStoreOp_def DeleteService_def tx_delete_def peer_groups_unique_def
          split: sum.splits if_splits)
next
  case (OpCreatePeerGroup p)
  show ?thesis
  proof (cases "CreatePeerGroup tx p")
    case (Inl e)
    with OpCreatePeerGroup assms show ?thesis by (simp add: commitStoreOp_def)
  next
    case (Inr tx')
    then have tbl: "tablePeerGroup tx' = tablePeerGroup tx @ [p]"
      and fresh_name: "\<forall>q \<in> set (tablePeerGroup tx). ToLower (PeerGroup_Name q) \<noteq> ToLower (PeerGroup_Name p)"
      and fresh_id: "tx_get PeerGroup_ID (tablePeerGroup tx) (PeerGroup_ID p) = None"
      by (auto simp: CreatePeerGroup_def tx_create_def tx_lookup_name_None_iff split: if_splits)
    from fresh_id have "\<forall>q \<in> set (tablePeerGroup tx). PeerGroup_ID q \<noteq> PeerGroup_ID p"
      by (auto simp: tx_get_def find_None_iff)
    with tbl fresh_name assms have "peer_groups_unique tx'"
      by (auto simp: peer_groups_unique_def)
    with Inr OpCreatePeerGroup show ?thesis by (simp add: commitStoreOp_def)
  qed
next
  case (OpUpdatePeerGroup pg)
  show ?thesis
  proof (cases "UpdatePeerGroup tx pg")
    case (Inl e)
    with OpUpdatePeerGroup assms show ?thesis by (simp add: commitStoreOp_def)
  next
    case (Inr tx')
    then have tbl: "tablePeerGroup tx' =
        map (\<lambda>old. if PeerGroup_ID old = PeerGroup_ID pg then pg else old) (tablePeerGroup tx)"
      by (auto simp: UpdatePeerGroup_def Let_def tx_update_def split: if_splits sum.splits)
    have same: "\<forall>x \<in> set (tablePeerGroup tx).
        ToLower (PeerGroup_Name x) = ToLower (PeerGroup_Name pg) \<longrightarrow> PeerGroup_ID x = PeerGroup_ID pg"
    proof (cases "tx_lookup_name PeerGroup_Name (tablePeerGroup tx) (ToLower (PeerGroup_Name pg))")
      case None
      then show ?thesis by (auto simp: tx_lookup_name_None_iff)
    next
      case (Some existing)
      with Inr have eid: "PeerGroup_ID existing = PeerGroup_ID pg"
        by (auto simp: UpdatePeerGroup_def Let_def split: if_splits)
      from Some have ex: "existing \<in> set (tablePeerGroup tx)"
        "ToLower (PeerGroup_Name existing) = ToLower (PeerGroup_Name pg)"
        by (auto dest: tx_lookup_name_SomeD)
      from assms have "inj_on (\<lambda>p. ToLower (PeerGroup_Name p)) (set (tablePeerGroup tx))"
        by (simp add: peer_groups_unique_def distinct_map)
      with ex eid show ?thesis by (metis inj_onD)
    qed
    from assms same have "distinct (map (\<lambda>p. ToLower (PeerGroup_Name p))
        (map (\<lambda>old. if PeerGroup_ID old = PeerGroup_ID pg then pg else old) (tablePeerGroup tx)))"
      unfolding peer_groups_unique_def
      by (intro distinct_map_replace) auto
    moreover from assms have "distinct (map PeerGroup_ID
        (map (\<lambda>old. if PeerGroup_ID old = PeerGroup_ID pg then pg else old) (tablePeerGroup tx)))"
      by (simp only: map_id_replace peer_groups_unique_def)
    ultimately have "peer_groups_unique tx'"
      using tbl by (simp add: peer_groups_unique_def)
    with Inr OpUpdatePeerGroup show ?thesis by (simp add: commitStoreOp_def)
  qed
next
  case (OpDeletePeerGroup i)
  with assms show ?thesis
    by (auto simp: commitStoreOp_def DeletePeerGroup_def tx_delete_def peer_groups_unique_def
          distinct_map_filter split: sum.splits if_splits)
qed

lemma runStoreOps_invariant:
  "names_disjoint tx \<Longrightarrow> peer_groups_unique tx
    \<Longrightarrow> names_disjoint (runStoreOps tx ops) \<and> peer_groups_unique (runStoreOps tx ops)"
  unfolding runStoreOps_def
  by (induction ops arbitrary: tx) (simp_all add: names_disjoint_step peer_groups_unique_step)

lemma emptyStore_invariant: "names_disjoint emptyStore \<and> peer_groups_unique emptyStore"
  by (simp add: names_disjoint_def peer_groups_unique_def emptyStore_def)

lemma UpdatePeerGroup_conflict:
  assumes inv: "names_disjoint tx" "peer_groups_unique tx"
    and coll: "(\<exists>p \<in> set (tablePeerGroup tx). PeerGroup_ID p \<noteq> PeerGroup_ID pg
                  \<and> ToLower (PeerGroup_Name p) = ToLower (PeerGroup_Name pg))
               \<or> (\<exists>s \<in> set (tableService tx). ToLower (Service_Name s) = ToLower (PeerGroup_Name pg))"
  shows "UpdatePeerGroup tx pg = Inl ErrNameConflict"
proof (cases "tx_lookup_name PeerGroup_Name (tablePeerGroup tx) (ToLower (PeerGroup_Name pg))")
  case None
  then have "\<forall>p \<in> set (tablePeerGroup tx). ToLower (PeerGroup_Name p) \<noteq> ToLower (PeerGroup_Name pg)"
    by (simp add: tx_lookup_name_None_iff)
  with coll have "\<exists>s \<in> set (tableService tx). ToLower (Service_Name s) = ToLower (PeerGroup_Name pg)"
    by blast
  then have "tx_lookup_name Service_Name (tableService tx) (ToLower (PeerGroup_Name pg)) \<noteq> None"
    by (simp add: tx_lookup_name_None_iff)
  with None show ?thesis by (simp add: UpdatePeerGroup_def)
next
  case (Some existing)
  then have ex: "existing \<in> set (tablePeerGroup tx)"
    "ToLower (PeerGroup_Name existing) = ToLower (PeerGroup_Name pg)"
    by (auto dest: tx_lookup_name_SomeD)
  from inv(1) ex have no_service:
    "\<not> (\<exists>s \<in> set (tableService tx). ToLower (Service_Name s) = ToLower (PeerGroup_Name pg))"
    unfolding names_disjoint_def by metis
  with coll obtain p where p: "p \<in> set (tablePeerGroup tx)" "PeerGroup_ID p \<noteq> PeerGroup_ID pg"
    "ToLower (PeerGroup_Name p) = ToLower (PeerGroup_Name pg)"
    by blast
  from inv(2) have "inj_on (\<lambda>p. ToLower (PeerGroup_Name p)) (set (tablePeerGroup tx))"
    by (simp add: peer_groups_unique_def distinct_map)
  with p ex have "p = existing" by (metis inj_onD)
  with p(2) Some show ?thesis by (simp add: UpdatePeerGroup_def)
qed

text \<open>
  C5. \<open>CreatePeerGroup\<close> returns \<open>ErrNameConflict\<close> on any store in which a peer group or
  a service has the new name up to case; on every store reached from the empty one by
  store operations \<open>UpdatePeerGroup\<close> does so too when another peer group or any service
  has the name; and in every such store no service and peer group share a name up to
  case.
\<close>

theorem peer_group_name_conflict:
  "(((\<exists>p \<in> set (tablePeerGroup tx0). ToLower (PeerGroup_Name p) = ToLower (PeerGroup_Name pg))
      \<or> (\<exists>s \<in> set (tableService tx0). ToLower (Service_Name s) = ToLower (PeerGroup_Name pg)))
     \<longrightarrow> CreatePeerGroup tx0 pg = Inl ErrNameConflict)
   \<and> (((\<exists>p \<in> set (tablePeerGroup (runStoreOps emptyStore ops)).
           PeerGroup_ID p \<noteq> PeerGroup_ID pg
           \<and> ToLower (PeerGroup_Name p) = ToLower (PeerGroup_Name pg))
        \<or> (\<exists>s \<in> set (tableService (runStoreOps emptyStore ops)).
              ToLower (Service_Name s) = ToLower (PeerGroup_Name pg)))
       \<longrightarrow> UpdatePeerGroup (runStoreOps emptyStore ops) pg = Inl ErrNameConflict)
   \<and> (\<forall>s \<in> set (tableService (runStoreOps emptyStore ops)).
        \<forall>p \<in> set (tablePeerGroup (runStoreOps emptyStore ops)).
          ToLower (Service_Name s) \<noteq> ToLower (PeerGroup_Name p))"
proof -
  have inv: "names_disjoint (runStoreOps emptyStore ops)" "peer_groups_unique (runStoreOps emptyStore ops)"
    using runStoreOps_invariant emptyStore_invariant by blast+
  have create: "((\<exists>p \<in> set (tablePeerGroup tx0). ToLower (PeerGroup_Name p) = ToLower (PeerGroup_Name pg))
      \<or> (\<exists>s \<in> set (tableService tx0). ToLower (Service_Name s) = ToLower (PeerGroup_Name pg)))
     \<longrightarrow> CreatePeerGroup tx0 pg = Inl ErrNameConflict"
    by (auto simp: CreatePeerGroup_def tx_lookup_name_None_iff)
  from inv(1) have disj: "\<forall>s \<in> set (tableService (runStoreOps emptyStore ops)).
        \<forall>p \<in> set (tablePeerGroup (runStoreOps emptyStore ops)).
          ToLower (Service_Name s) \<noteq> ToLower (PeerGroup_Name p)"
    by (simp add: names_disjoint_def)
  from create UpdatePeerGroup_conflict [OF inv] disj show ?thesis by blast
qed

lemma run_alpha_then_beta:
  "runStoreOps emptyStore alpha_then_beta
     = emptyStore \<lparr> tableService := [demo_service], tablePeerGroup := [pg_beta] \<rparr>"
  by (simp add: runStoreOps_def alpha_then_beta_def commitStoreOp_def CreateService_def
        CreatePeerGroup_def tx_lookup_name_def tx_create_def tx_get_def emptyStore_def
        demo_service_def demo_static_service_def pg_beta_def Service_Name_def ToLower_def
        toLowerChar_def)

theorem peer_group_name_conflict_witness:
  "CreatePeerGroup (runStoreOps emptyStore alpha_then_beta) pg_ALPHA = Inl ErrNameConflict
   \<and> UpdatePeerGroup (runStoreOps emptyStore alpha_then_beta) pg_ALPHA = Inl ErrNameConflict
   \<and> tableService (runStoreOps emptyStore alpha_then_beta) = [demo_service]
   \<and> tablePeerGroup (runStoreOps emptyStore alpha_then_beta) = [pg_beta]
   \<and> ToLower (Service_Name demo_service) = ToLower (PeerGroup_Name pg_ALPHA)
   \<and> ToLower (Service_Name demo_service) \<noteq> ToLower (PeerGroup_Name pg_beta)"
  using peer_group_name_conflict
    [of "runStoreOps emptyStore alpha_then_beta" pg_ALPHA alpha_then_beta]
  by (simp add: run_alpha_then_beta demo_service_def demo_static_service_def Service_Name_def
        pg_ALPHA_def pg_beta_def ToLower_def toLowerChar_def)


section \<open>Properties of the static orchestrator\<close>

lemma issuanceLoop_ids:
  "issuanceLoop join tid acc cis = Inr refs
    \<Longrightarrow> map ConfigID refs = map ConfigID acc @ concat (map (issuanceConfigIDs tid) cis)"
proof (induction cis arbitrary: acc)
  case Nil
  then show ?case by simp
next
  case (Cons ci cis)
  then show ?case
    by (auto simp: issuanceConfigRefs_def issuanceConfigIDs_def Let_def split: option.splits sum.splits)
qed

lemma GetCertificateIssuanceConfigRefs_ids:
  "GetCertificateIssuanceConfigRefs join task = Inr refs
    \<Longrightarrow> map ConfigID refs
        = concat (map (issuanceConfigIDs (Task_ID task)) (taskCertificateIssuances (Task_Spec task)))"
  by (auto simp: GetCertificateIssuanceConfigRefs_def taskCertificateIssuances_def
        dest: issuanceLoop_ids split: option.splits)

lemma GetCertificateIssuanceConfigRefs_total:
  "\<forall>ci \<in> set (taskCertificateIssuances (Task_Spec task)). Directory ci \<noteq> None
    \<Longrightarrow> \<exists>refs. GetCertificateIssuanceConfigRefs join task = Inr refs"
  by (auto simp: GetCertificateIssuanceConfigRefs_def taskCertificateIssuances_def
        intro: issuanceLoop_total split: option.splits)

lemma NewTask_unfold:
  "NewTask env c service slot nodeID =
     (case GetCertificateIssuanceConfigRefs (filepath_Join env)
             (NewTask_before_issuances env c service slot nodeID) of
        Inl e \<Rightarrow> Inl e
      | Inr refs \<Rightarrow>
          Inr ((NewTask_before_issuances env c service slot nodeID)
                 \<lparr> MaterializedConfigs :=
                     MaterializedConfigs (NewTask_before_issuances env c service slot nodeID) @ refs \<rparr>))"
  by (cases "nodeID = ''''"; cases "Service_StaticInfo service")
     (simp_all add: NewTask_def NewTask_before_issuances_def Let_def PeerGroupConfigRef_def
        split: sum.splits)

lemma NewTask_static:
  assumes "Service_StaticInfo service = Some info"
    and "\<forall>ci \<in> set (taskCertificateIssuances (ServiceSpec_Task (Service_Spec service))). Directory ci \<noteq> None"
  shows "\<exists>task. NewTask env c service slot nodeID = Inr task
     \<and> Task_ID task = NewID env \<and> Task_ServiceID task = Service_ID service
     \<and> Task_NodeID task = nodeID \<and> Slot task = slot \<and> DesiredState task = TaskStateRunning
     \<and> map ConfigID (MaterializedConfigs task)
         = (NewID env @ ''-peer-group'')
           # concat (map (issuanceConfigIDs (NewID env))
                (taskCertificateIssuances (ServiceSpec_Task (Service_Spec service))))"
proof -
  let ?t0 = "NewTask_before_issuances env c service slot nodeID"
  have spec: "Task_Spec ?t0 = ServiceSpec_Task (Service_Spec service)" and tid: "Task_ID ?t0 = NewID env"
    by (simp_all add: NewTask_before_issuances_def)
  from assms(2) spec obtain refs where refs: "GetCertificateIssuanceConfigRefs (filepath_Join env) ?t0 = Inr refs"
    using GetCertificateIssuanceConfigRefs_total [of ?t0 "filepath_Join env"] by auto
  from GetCertificateIssuanceConfigRefs_ids [OF refs] spec tid
  have ids: "map ConfigID refs = concat (map (issuanceConfigIDs (NewID env))
                (taskCertificateIssuances (ServiceSpec_Task (Service_Spec service))))"
    by simp
  have "NewTask env c service slot nodeID
          = Inr (?t0 \<lparr> MaterializedConfigs := MaterializedConfigs ?t0 @ refs \<rparr>)"
    by (simp add: NewTask_unfold refs)
  moreover have "map ConfigID (MaterializedConfigs ?t0) = [NewID env @ ''-peer-group'']"
    using assms(1) by (simp add: NewTask_before_issuances_def)
  ultimately show ?thesis
    using ids by (simp add: NewTask_before_issuances_def)
qed

text \<open>
  C2, as the code has it. For a service with \<open>StaticInfo\<close> set that is still in the store,
  a fresh task id and every certificate issuance carrying a directory, \<open>addTask\<close> with
  the service's \<open>StaticInfo.NodeID\<close> adds exactly one task to the task table; the task
  has the service's id as \<open>ServiceID\<close>, that node id, slot 0, desired state Running, and
  the config ids of its \<open>MaterializedConfigs\<close> are the peer group id
  \<open><taskID>-peer-group\<close> together with the three issuance ids of each certificate
  issuance of the container spec.
\<close>

theorem addTask_static_service:
  assumes "Service_StaticInfo service = Some info"
    and "GetService store (Service_ID service) \<noteq> None"
    and "GetTask store (NewID env) = None"
    and "\<forall>ci \<in> set (taskCertificateIssuances (ServiceSpec_Task (Service_Spec service))).
           Directory ci \<noteq> None"
  shows "\<exists>task. addTask env orch store service (StaticInfo_NodeID info)
                 = Inr (store \<lparr> tableTask := tableTask store @ [task] \<rparr>)
     \<and> Task_ID task = NewID env \<and> Task_ServiceID task = Service_ID service
     \<and> Task_NodeID task = StaticInfo_NodeID info \<and> Slot task = 0
     \<and> DesiredState task = TaskStateRunning
     \<and> set (map ConfigID (MaterializedConfigs task))
         = insert (NewID env @ ''-peer-group'')
             (\<Union>ci \<in> set (taskCertificateIssuances (ServiceSpec_Task (Service_Spec service))).
                 set (issuanceConfigIDs (NewID env) ci))"
proof -
  from NewTask_static [OF assms(1) assms(4), of env "cluster orch" 0 "StaticInfo_NodeID info"]
  obtain task where task: "NewTask env (cluster orch) service 0 (StaticInfo_NodeID info) = Inr task"
    "Task_ID task = NewID env" "Task_ServiceID task = Service_ID service"
    "Task_NodeID task = StaticInfo_NodeID info" "Slot task = 0" "DesiredState task = TaskStateRunning"
    "map ConfigID (MaterializedConfigs task)
         = (NewID env @ ''-peer-group'')
           # concat (map (issuanceConfigIDs (NewID env))
                (taskCertificateIssuances (ServiceSpec_Task (Service_Spec service))))"
    by (elim exE conjE)
  let ?task = "task \<lparr> MaterializedConfigs := MaterializedConfigs task @ [PeerGroupConfigRef task] \<rparr>"
  from assms(3) task(2) have "CreateTask store ?task = Inr (store \<lparr> tableTask := tableTask store @ [?task] \<rparr>)"
    by (simp add: CreateTask_def tx_create_def GetTask_def)
  with assms(2) task(1)
  have "addTask env orch store service (StaticInfo_NodeID info)
          = Inr (store \<lparr> tableTask := tableTask store @ [?task] \<rparr>)"
    by (auto simp: addTask_def Let_def)
  moreover have "set (map ConfigID (MaterializedConfigs ?task))
         = insert (NewID env @ ''-peer-group'')
             (\<Union>ci \<in> set (taskCertificateIssuances (ServiceSpec_Task (Service_Spec service))).
                 set (issuanceConfigIDs (NewID env) ci))"
    using task(7) task(2) by (auto simp: PeerGroupConfigRef_def)
  ultimately show ?thesis
    using task(2-6) by (intro exI [of _ ?task]) simp
qed

theorem addTask_static_service_witness:
  "\<exists>task. addTask demo_env NewStaticOrchestrator (store_with [cert_service]) cert_service ''N1''
            = Inr ((store_with [cert_service]) \<lparr> tableTask := [task] \<rparr>)
     \<and> Task_ID task = ''T1'' \<and> Task_ServiceID task = ''S1'' \<and> Task_NodeID task = ''N1''
     \<and> Slot task = 0 \<and> DesiredState task = TaskStateRunning
     \<and> set (map ConfigID (MaterializedConfigs task))
          = {''T1-peer-group'', ''T1-ca1-issue-ca'', ''T1-ca1-issue-key'', ''T1-ca1-issue-cert''}"
  using addTask_static_service [of cert_service
      "\<lparr> StaticInfo_NodeID = ''N1'', StaticInfo_Message = '''',
         StaticInfo_NetworkAttachment = Some (demo_attachment ''10.0.0.4/24'') \<rparr>"
      "store_with [cert_service]" demo_env NewStaticOrchestrator]
  by (simp add: cert_service_def demo_static_service_def store_with_def emptyStore_def
        GetService_def GetTask_def tx_get_def demo_env_def cert_taskspec_def demo_taskspec_def
        cert_container_def demo_container_def taskCertificateIssuances_def issuanceConfigIDs_def)

text \<open>
  C2 as stated fails: for a static service whose container asks for one certificate
  issuance, the task that \<open>addTask\<close> stores lists five materialized config references,
  not one: the peer group reference from \<open>NewTask\<close>, the three issuance references, and
  the peer group reference that \<open>addTask\<close> appends.
\<close>

theorem addTask_materialized_configs_counterexample:
  "materializedConfigIDs
     (addTask demo_env NewStaticOrchestrator (store_with [cert_service]) cert_service ''N1'')
   = [[''T1-peer-group'', ''T1-ca1-issue-ca'', ''T1-ca1-issue-key'', ''T1-ca1-issue-cert'',
       ''T1-peer-group'']]"
  by (simp add: materializedConfigIDs_def addTask_def NewTask_def Let_def
        GetCertificateIssuanceConfigRefs_def issuanceConfigRefs_def PeerGroupConfigRef_def
        CreateTask_def tx_create_def GetService_def tx_get_def
        cert_service_def demo_static_service_def store_with_def emptyStore_def
        demo_env_def cert_taskspec_def demo_taskspec_def cert_container_def demo_container_def
        NewStaticOrchestrator_def)

text \<open>
  C6. A static service whose \<open>StaticInfo.NodeID\<close> is empty is not a related service, yet
  the start of \<open>Run\<close>, which tests \<open>IsStaticService\<close> only, puts it into \<open>services\<close> and
  hands its id to the first reconciliation; \<open>servicesByNodeID\<close> stays empty.
\<close>

theorem Run_start_tracks_unpinned_service:
  "IsRelatedService unpinned_service = Inr False
   \<and> Run_start (store_with [unpinned_service]) NewStaticOrchestrator
       = Inr (NewStaticOrchestrator \<lparr> services := [''S0'' \<mapsto> unpinned_service] \<rparr>, [''S0''])"
  by (simp add: IsRelatedService_def IsStaticService_def Run_start_def updateService_def Let_def
        unpinned_service_def demo_service_def demo_static_service_def store_with_def
        emptyStore_def NewStaticOrchestrator_def)


section \<open>Properties of the assignment set\<close>

text \<open>Map keys are pairs; quantifiers over keys are kept as they are written.\<close>

declare split_paired_All [simp del] split_paired_Ex [simp del]

subsection \<open>The primitive updates\<close>

lemma usersOf_addUser [simp]:
  "usersOf (addUser a k tid) k' = (if k' = k then insert tid (usersOf a k) else usersOf a k')"
  by (simp add: addUser_def usersOf_def)

lemma fields_addUser [simp]:
  "tasksMap (addUser a k tid) = tasksMap a"
  "changes (addUser a k tid) = changes a"
  "log (addUser a k tid) = log a"
  by (simp_all add: addUser_def)

lemma fields_logf [simp]:
  "tasksMap (logf a e) = tasksMap a"
  "changes (logf a e) = changes a"
  "usersOf (logf a e) k = usersOf a k"
  "log (logf a e) = log a @ [e]"
  by (simp_all add: logf_def usersOf_def)

subsection \<open>Releasing dependencies\<close>

lemma releaseDependency_effect:
  "usersOf (fst (releaseDependency a k item tid)) k'
     = (if k' = k then usersOf a k - {tid} else usersOf a k')"
  "changes (fst (releaseDependency a k item tid)) k'
     = (if k' = k \<and> usersOf a k \<subseteq> {tid} then Some (removeChange item) else changes a k')"
  "tasksMap (fst (releaseDependency a k item tid)) = tasksMap a"
  "log (fst (releaseDependency a k item tid)) = log a"
  "snd (releaseDependency a k item tid) \<longleftrightarrow> usersOf a k \<subseteq> {tid}"
  by (auto simp: releaseDependency_def usersOf_def Let_def split: option.splits)

lemma released_byD:
  assumes "released_by tid K am am'"
  shows "usersOf (fst am') k = (if k \<in> K then usersOf (fst am) k - {tid} else usersOf (fst am) k)"
    and "changes (fst am') k
           = (if k \<in> K \<and> usersOf (fst am) k \<subseteq> {tid} then Some (removeChange (releaseItem k))
              else changes (fst am) k)"
    and "tasksMap (fst am') = tasksMap (fst am)"
    and "snd am' \<longleftrightarrow> snd am \<or> (\<exists>k \<in> K. usersOf (fst am) k \<subseteq> {tid})"
  using assms unfolding released_by_def by blast+

lemma released_byI:
  assumes "\<And>k. usersOf (fst am') k = (if k \<in> K then usersOf (fst am) k - {tid} else usersOf (fst am) k)"
    and "\<And>k. changes (fst am') k
           = (if k \<in> K \<and> usersOf (fst am) k \<subseteq> {tid} then Some (removeChange (releaseItem k))
              else changes (fst am) k)"
    and "tasksMap (fst am') = tasksMap (fst am)"
    and "snd am' \<longleftrightarrow> snd am \<or> (\<exists>k \<in> K. usersOf (fst am) k \<subseteq> {tid})"
  shows "released_by tid K am am'"
  using assms unfolding released_by_def by blast

lemma released_by_same:
  "(\<And>k. usersOf (fst am') k = usersOf (fst am) k) \<Longrightarrow> changes (fst am') = changes (fst am)
    \<Longrightarrow> tasksMap (fst am') = tasksMap (fst am) \<Longrightarrow> snd am' = snd am
    \<Longrightarrow> released_by tid {} am am'"
  by (rule released_byI) simp_all

lemma released_by_releaseKey: "released_by tid {k} am (releaseKey tid am k)"
proof (rule released_byI)
  fix k'
  show "usersOf (fst (releaseKey tid am k)) k'
      = (if k' \<in> {k} then usersOf (fst am) k' - {tid} else usersOf (fst am) k')"
    by (simp add: releaseKey_def Let_def releaseDependency_effect split_beta)
  show "changes (fst (releaseKey tid am k)) k'
      = (if k' \<in> {k} \<and> usersOf (fst am) k' \<subseteq> {tid} then Some (removeChange (releaseItem k'))
         else changes (fst am) k')"
    by (auto simp: releaseKey_def releaseItem_def Let_def releaseDependency_effect split_beta
          split: ResourceType.splits)
next
  show "tasksMap (fst (releaseKey tid am k)) = tasksMap (fst am)"
    by (simp add: releaseKey_def Let_def releaseDependency_effect split_beta)
  show "snd (releaseKey tid am k) \<longleftrightarrow> snd am \<or> (\<exists>k \<in> {k}. usersOf (fst am) k \<subseteq> {tid})"
    by (auto simp: releaseKey_def Let_def releaseDependency_effect split_beta)
qed

lemma released_by_trans:
  assumes "released_by tid K1 am am1" and "released_by tid K2 am1 am2"
  shows "released_by tid (K1 \<union> K2) am am2"
proof (rule released_byI)
  have sub: "usersOf (fst am1) k \<subseteq> {tid} \<longleftrightarrow> usersOf (fst am) k \<subseteq> {tid}" for k
    using released_byD(1) [OF assms(1), of k] by auto
  fix k
  show "usersOf (fst am2) k
      = (if k \<in> K1 \<union> K2 then usersOf (fst am) k - {tid} else usersOf (fst am) k)"
    using released_byD(1) [OF assms(1), of k] released_byD(1) [OF assms(2), of k] by auto
  show "changes (fst am2) k
      = (if k \<in> K1 \<union> K2 \<and> usersOf (fst am) k \<subseteq> {tid} then Some (removeChange (releaseItem k))
         else changes (fst am) k)"
    using released_byD(2) [OF assms(1), of k] released_byD(2) [OF assms(2), of k] sub [of k]
    by auto
  show "tasksMap (fst am2) = tasksMap (fst am)"
    using released_byD(3) [OF assms(1)] released_byD(3) [OF assms(2)] by simp
  show "snd am2 \<longleftrightarrow> snd am \<or> (\<exists>k \<in> K1 \<union> K2. usersOf (fst am) k \<subseteq> {tid})"
    using released_byD(4) [OF assms(1)] released_byD(4) [OF assms(2)] sub by blast
qed

lemma released_by_releaseKeys: "released_by tid (set ks) am (foldl (releaseKey tid) am ks)"
proof (induction ks arbitrary: am)
  case Nil
  show ?case by (rule released_byI) simp_all
next
  case (Cons k ks)
  from released_by_trans [OF released_by_releaseKey [of tid k am] Cons.IH [of "releaseKey tid am k"]]
  show ?case by simp
qed

lemma released_by_releaseResourceReference:
  "released_by tid (if ResourceType ref \<noteq> ResourceType_TASK then {(ResourceType ref, ResourceID ref)} else {})
     am (releaseResourceReference tid am ref)"
proof (cases "ResourceType ref")
  case ResourceType_TASK
  then have "released_by tid {} am (releaseResourceReference tid am ref)"
    by (intro released_by_same) (simp_all add: releaseResourceReference_def)
  with ResourceType_TASK show ?thesis by simp
next
  case ResourceType_SECRET
  then show ?thesis
    using released_by_releaseKey [of tid "(ResourceType ref, ResourceID ref)" am]
    by (simp add: releaseResourceReference_def)
next
  case ResourceType_CONFIG
  then show ?thesis
    using released_by_releaseKey [of tid "(ResourceType ref, ResourceID ref)" am]
    by (simp add: releaseResourceReference_def)
qed

lemma released_by_releaseResourceReferences:
  "released_by tid
     (set (map (\<lambda>ref. (ResourceType ref, ResourceID ref))
             (filter (\<lambda>ref. ResourceType ref \<noteq> ResourceType_TASK) refs)))
     am (foldl (releaseResourceReference tid) am refs)"
proof (induction refs arbitrary: am)
  case Nil
  show ?case by (rule released_byI) simp_all
next
  case (Cons ref refs)
  from released_by_trans [OF released_by_releaseResourceReference [of tid ref am]
      Cons.IH [of "releaseResourceReference tid am ref"]]
  show ?case by (cases "ResourceType ref = ResourceType_TASK") simp_all
qed

lemma released_by_releaseTaskDependencies:
  "released_by (Task_ID t) (set (releasedKeys t)) (a, False) (releaseTaskDependencies a t)"
proof -
  let ?K1 = "set (map (\<lambda>ref. (ResourceType ref, ResourceID ref))
             (filter (\<lambda>ref. ResourceType ref \<noteq> ResourceType_TASK) (ResourceReferences (Task_Spec t))))"
  let ?secrets = "map (\<lambda>ref. (ResourceType_SECRET, SecretID ref))
               (case GetContainer (Task_Spec t) of None \<Rightarrow> [] | Some c \<Rightarrow> Secrets c)"
  let ?configs = "map (\<lambda>ref. (ResourceType_CONFIG, ConfigID ref))
               (case GetContainer (Task_Spec t) of None \<Rightarrow> [] | Some c \<Rightarrow> Configs c)"
  let ?materialized = "map (\<lambda>ref. (ResourceType_CONFIG, ConfigID ref)) (MaterializedConfigs t)"
  let ?am1 = "foldl (releaseResourceReference (Task_ID t)) (a, False) (ResourceReferences (Task_Spec t))"
  let ?am2 = "foldl (releaseKey (Task_ID t)) ?am1 ?secrets"
  let ?am3 = "foldl (releaseKey (Task_ID t)) ?am2 ?configs"
  let ?am4 = "foldl (releaseKey (Task_ID t)) ?am3 ?materialized"
  have keys: "set (releasedKeys t) = ((?K1 \<union> set ?secrets) \<union> set ?configs) \<union> set ?materialized"
    unfolding releasedKeys_def declaredKeys_def by (simp only: set_append Un_assoc)
  have r1: "released_by (Task_ID t) ?K1 (a, False) ?am1"
    by (rule released_by_releaseResourceReferences)
  have r2: "released_by (Task_ID t) (set ?secrets) ?am1 ?am2"
    by (rule released_by_releaseKeys)
  have r3: "released_by (Task_ID t) (set ?configs) ?am2 ?am3"
    by (rule released_by_releaseKeys)
  have r4: "released_by (Task_ID t) (set ?materialized) ?am3 ?am4"
    by (rule released_by_releaseKeys)
  have "releaseTaskDependencies a t = ?am4"
    unfolding releaseTaskDependencies_def Let_def by (rule refl)
  with released_by_trans [OF released_by_trans [OF released_by_trans [OF r1 r2] r3] r4] keys
  show ?thesis by (simp only:)
qed

lemma releaseTaskDependencies_effect:
  "usersOf (fst (releaseTaskDependencies a t)) k
     = (if k \<in> set (releasedKeys t) then usersOf a k - {Task_ID t} else usersOf a k)"
  "changes (fst (releaseTaskDependencies a t)) k
     = (if k \<in> set (releasedKeys t) \<and> usersOf a k \<subseteq> {Task_ID t}
        then Some (removeChange (releaseItem k)) else changes a k)"
  "tasksMap (fst (releaseTaskDependencies a t)) = tasksMap a"
  "snd (releaseTaskDependencies a t)
     \<longleftrightarrow> (\<exists>k \<in> set (releasedKeys t). usersOf a k \<subseteq> {Task_ID t})"
  using released_byD [OF released_by_releaseTaskDependencies [of t a]]
  by simp_all

subsection \<open>Adding dependencies: what every step keeps\<close>

lemma added_byD:
  assumes "added_by tid a a'"
  shows "tasksMap a' = tasksMap a"
    and "usersOf a' k = usersOf a k \<or> usersOf a' k = insert tid (usersOf a k)"
    and "usersOf a k \<noteq> {} \<Longrightarrow> changes a' k = changes a k"
    and "changes a' k = changes a k
          \<or> (fst k \<noteq> ResourceType_TASK \<and> (\<exists>item. changes a' k = Some (updateChange item)))"
    and "fst k = ResourceType_TASK \<Longrightarrow> usersOf a k = {} \<Longrightarrow> usersOf a' k = {}"
    and "\<exists>new. log a' = log a @ new
            \<and> (\<forall>k. fst k \<noteq> ResourceType_TASK \<longrightarrow> usersOf a k \<noteq> {} \<longrightarrow> failureEntry k \<notin> set new)"
  using assms unfolding added_by_def by blast+

lemma added_byI:
  assumes "tasksMap a' = tasksMap a"
    and "\<And>k. usersOf a' k = usersOf a k \<or> usersOf a' k = insert tid (usersOf a k)"
    and "\<And>k. usersOf a k \<noteq> {} \<Longrightarrow> changes a' k = changes a k"
    and "\<And>k. changes a' k = changes a k
          \<or> (fst k \<noteq> ResourceType_TASK \<and> (\<exists>item. changes a' k = Some (updateChange item)))"
    and "\<And>k. fst k = ResourceType_TASK \<Longrightarrow> usersOf a k = {} \<Longrightarrow> usersOf a' k = {}"
    and "\<exists>new. log a' = log a @ new
            \<and> (\<forall>k. fst k \<noteq> ResourceType_TASK \<longrightarrow> usersOf a k \<noteq> {} \<longrightarrow> failureEntry k \<notin> set new)"
  shows "added_by tid a a'"
  using assms unfolding added_by_def by blast

lemma added_by_refl: "added_by tid a a"
  by (rule added_byI) simp_all

lemma added_by_users_mono: "added_by tid a a' \<Longrightarrow> usersOf a k \<subseteq> usersOf a' k"
  using added_byD(2) [of tid a a' k] by auto

lemma added_by_trans:
  assumes "added_by tid a a1" and "added_by tid a1 a2"
  shows "added_by tid a a2"
proof (rule added_byI)
  show "tasksMap a2 = tasksMap a"
    using added_byD(1) [OF assms(1)] added_byD(1) [OF assms(2)] by simp
next
  fix k
  show "usersOf a2 k = usersOf a k \<or> usersOf a2 k = insert tid (usersOf a k)"
    using added_byD(2) [OF assms(1), of k] added_byD(2) [OF assms(2), of k] by auto
  show "changes a2 k = changes a k
          \<or> (fst k \<noteq> ResourceType_TASK \<and> (\<exists>item. changes a2 k = Some (updateChange item)))"
    using added_byD(4) [OF assms(1), of k] added_byD(4) [OF assms(2), of k] by auto
next
  fix k
  assume ne: "usersOf a k \<noteq> {}"
  with added_by_users_mono [OF assms(1), of k] have "usersOf a1 k \<noteq> {}" by auto
  with ne show "changes a2 k = changes a k"
    using added_byD(3) [OF assms(1), of k] added_byD(3) [OF assms(2), of k] by simp
next
  fix k
  assume "fst k = ResourceType_TASK" "usersOf a k = {}"
  then show "usersOf a2 k = {}"
    using added_byD(5) [OF assms(1), of k] added_byD(5) [OF assms(2), of k] by simp
next
  from added_byD(6) [OF assms(1)] obtain new1 where n1: "log a1 = log a @ new1"
    "\<forall>k. fst k \<noteq> ResourceType_TASK \<longrightarrow> usersOf a k \<noteq> {} \<longrightarrow> failureEntry k \<notin> set new1"
    by blast
  from added_byD(6) [OF assms(2)] obtain new2 where n2: "log a2 = log a1 @ new2"
    "\<forall>k. fst k \<noteq> ResourceType_TASK \<longrightarrow> usersOf a1 k \<noteq> {} \<longrightarrow> failureEntry k \<notin> set new2"
    by blast
  have "\<forall>k. fst k \<noteq> ResourceType_TASK \<longrightarrow> usersOf a k \<noteq> {} \<longrightarrow> failureEntry k \<notin> set (new1 @ new2)"
  proof (intro allI impI)
    fix k
    assume k: "fst k \<noteq> ResourceType_TASK" "usersOf a k \<noteq> {}"
    with added_by_users_mono [OF assms(1), of k] have "usersOf a1 k \<noteq> {}" by auto
    with k n1(2) n2(2) show "failureEntry k \<notin> set (new1 @ new2)" by simp
  qed
  with n1(1) n2(1) show "\<exists>new. log a2 = log a @ new
      \<and> (\<forall>k. fst k \<noteq> ResourceType_TASK \<longrightarrow> usersOf a k \<noteq> {} \<longrightarrow> failureEntry k \<notin> set new)"
    by (intro exI [of _ "new1 @ new2"]) simp
qed

lemma added_by_foldl:
  assumes "\<And>a x. added_by tid a (f a x)"
  shows "added_by tid a (foldl f a xs)"
proof (induction xs arbitrary: a)
  case Nil
  show ?case by (simp add: added_by_refl)
next
  case (Cons x xs)
  from added_by_trans [OF assms [of a x] Cons.IH [of "f a x"]] show ?case by simp
qed

lemma failureEntry_is_failureEntry: "fst k \<noteq> ResourceType_TASK \<Longrightarrow> is_failureEntry (failureEntry k)"
  by (cases "fst k") (simp_all add: failureEntry_def is_failureEntry_def)

lemma added_by_log_only:
  assumes "tasksMap a' = tasksMap a" and "tasksUsingDependency a' = tasksUsingDependency a"
    and "changes a' = changes a" and "log a' = log a @ new"
    and "\<forall>e \<in> set new. \<not> is_failureEntry e"
  shows "added_by tid a a'"
proof (rule added_byI)
  show "\<exists>new. log a' = log a @ new
      \<and> (\<forall>k. fst k \<noteq> ResourceType_TASK \<longrightarrow> usersOf a k \<noteq> {} \<longrightarrow> failureEntry k \<notin> set new)"
    using assms(4,5) failureEntry_is_failureEntry by (intro exI [of _ new]) blast
qed (simp_all add: assms usersOf_def)

lemma added_by_addUser:
  "fst k = ResourceType_TASK \<longrightarrow> usersOf a k \<noteq> {} \<Longrightarrow> added_by tid a (addUser a k tid)"
  by (rule added_byI) auto

subsection \<open>The declared references\<close>

lemma assignSecret_effect:
  "usersOf (assignSecret ext a readTx k t) k' = (if k' = k then {} else usersOf a k')"
  "tasksMap (assignSecret ext a readTx k t) = tasksMap a"
  "changes (assignSecret ext a readTx k t) k'
     = (if k' = k
        then (case secret ext readTx t (snd k) of
                None \<Rightarrow> changes a k
              | Some s \<Rightarrow> Some (updateChange (Assignment_Secret s)))
        else changes a k')"
  "log (assignSecret ext a readTx k t)
     = log a @ (case secret ext readTx t (snd k) of
                  None \<Rightarrow> [Log_failed_to_fetch_secret (snd k)] | Some s \<Rightarrow> [])"
  by (auto simp: assignSecret_def Let_def usersOf_def logf_def split: option.splits)

lemma assignConfig_effect:
  "usersOf (assignConfig a readTx k) k' = (if k' = k then {} else usersOf a k')"
  "tasksMap (assignConfig a readTx k) = tasksMap a"
  "changes (assignConfig a readTx k) k'
     = (if k' = k
        then (case GetConfig readTx (snd k) of
                None \<Rightarrow> changes a k
              | Some c \<Rightarrow> Some (updateChange (Assignment_Config c)))
        else changes a k')"
  "log (assignConfig a readTx k)
     = log a @ (case GetConfig readTx (snd k) of
                  None \<Rightarrow> [Log_config_not_found (snd k)] | Some c \<Rightarrow> [])"
  by (auto simp: assignConfig_def Let_def usersOf_def logf_def split: option.splits)

lemma addDeclaredKey_effect:
  assumes "fst k \<noteq> ResourceType_TASK"
  shows "usersOf (addDeclaredKey ext readTx t a k) k'
           = (if k' = k then insert (Task_ID t) (usersOf a k) else usersOf a k')"
    and "tasksMap (addDeclaredKey ext readTx t a k) = tasksMap a"
    and "changes (addDeclaredKey ext readTx t a k) k'
           = (if k' = k \<and> usersOf a k = {}
              then (case materialize ext readTx t k of
                      None \<Rightarrow> changes a k
                    | Some item \<Rightarrow> Some (updateChange item))
              else changes a k')"
    and "log (addDeclaredKey ext readTx t a k)
           = log a @ (if usersOf a k = {} \<and> materialize ext readTx t k = None
                      then [failureEntry k] else [])"
  using assms
  by (cases "fst k"; auto simp: addDeclaredKey_def assignSecret_effect assignConfig_effect
        materialize_def failureEntry_def split: option.splits)+

lemma addSecretReference_eq:
  "addSecretReference ext readTx t a ref
     = addDeclaredKey ext readTx t a (ResourceType_SECRET, SecretID ref)"
  by (simp add: addSecretReference_def addDeclaredKey_def Let_def)

lemma addConfigReference_eq:
  "addConfigReference readTx t a ref
     = addDeclaredKey ext readTx t a (ResourceType_CONFIG, ConfigID ref)"
  by (simp add: addConfigReference_def addDeclaredKey_def Let_def)

lemma addResourceReference_eq:
  "ResourceType ref \<noteq> ResourceType_TASK
    \<Longrightarrow> addResourceReference ext readTx t a ref
        = addDeclaredKey ext readTx t a (ResourceType ref, ResourceID ref)"
  by (cases "ResourceType ref") (simp_all add: addResourceReference_def addDeclaredKey_def Let_def)

lemma addResourceReference_TASK:
  "ResourceType ref = ResourceType_TASK
    \<Longrightarrow> addResourceReference ext readTx t a ref
        = (if usersOf a (ResourceType_TASK, ResourceID ref) = {}
           then logf a (Log_invalid_resource_type ResourceType_TASK)
           else addUser a (ResourceType_TASK, ResourceID ref) (Task_ID t))"
  by (simp add: addResourceReference_def Let_def)

lemma failureEntry_inj:
  "fst k \<noteq> ResourceType_TASK \<Longrightarrow> fst k' \<noteq> ResourceType_TASK
    \<Longrightarrow> failureEntry k = failureEntry k' \<Longrightarrow> k = k'"
  by (cases k; cases k'; cases "fst k"; cases "fst k'") (simp_all add: failureEntry_def)

lemma added_by_addDeclaredKey:
  assumes "fst k \<noteq> ResourceType_TASK"
  shows "added_by (Task_ID t) a (addDeclaredKey ext readTx t a k)"
proof (rule added_byI)
  show "tasksMap (addDeclaredKey ext readTx t a k) = tasksMap a"
    by (simp add: addDeclaredKey_effect [OF assms])
next
  fix k'
  show "usersOf (addDeclaredKey ext readTx t a k) k' = usersOf a k'
      \<or> usersOf (addDeclaredKey ext readTx t a k) k' = insert (Task_ID t) (usersOf a k')"
    by (simp add: addDeclaredKey_effect [OF assms])
  show "changes (addDeclaredKey ext readTx t a k) k' = changes a k'
      \<or> (fst k' \<noteq> ResourceType_TASK
          \<and> (\<exists>item. changes (addDeclaredKey ext readTx t a k) k' = Some (updateChange item)))"
    using assms by (auto simp: addDeclaredKey_effect [OF assms] split: option.splits)
next
  fix k'
  assume "usersOf a k' \<noteq> {}"
  then show "changes (addDeclaredKey ext readTx t a k) k' = changes a k'"
    by (auto simp: addDeclaredKey_effect [OF assms])
next
  fix k'
  assume "fst k' = ResourceType_TASK" "usersOf a k' = {}"
  with assms show "usersOf (addDeclaredKey ext readTx t a k) k' = {}"
    by (auto simp: addDeclaredKey_effect [OF assms])
next
  let ?new = "if usersOf a k = {} \<and> materialize ext readTx t k = None then [failureEntry k] else []"
  have "\<forall>k'. fst k' \<noteq> ResourceType_TASK \<longrightarrow> usersOf a k' \<noteq> {} \<longrightarrow> failureEntry k' \<notin> set ?new"
    using assms by (auto dest: failureEntry_inj)
  then show "\<exists>new. log (addDeclaredKey ext readTx t a k) = log a @ new
      \<and> (\<forall>k'. fst k' \<noteq> ResourceType_TASK \<longrightarrow> usersOf a k' \<noteq> {} \<longrightarrow> failureEntry k' \<notin> set new)"
    by (intro exI [of _ ?new]) (simp add: addDeclaredKey_effect [OF assms])
qed

lemma added_by_addResourceReference:
  "added_by (Task_ID t) a (addResourceReference ext readTx t a ref)"
proof (cases "ResourceType ref = ResourceType_TASK")
  case False
  then show ?thesis
    by (simp add: addResourceReference_eq added_by_addDeclaredKey)
next
  case True
  show ?thesis
  proof (cases "usersOf a (ResourceType_TASK, ResourceID ref) = {}")
    case empty: True
    have "added_by (Task_ID t) a (logf a (Log_invalid_resource_type ResourceType_TASK))"
      by (rule added_by_log_only [where new = "[Log_invalid_resource_type ResourceType_TASK]"])
         (simp_all add: logf_def is_failureEntry_def)
    with True empty show ?thesis by (simp add: addResourceReference_TASK)
  next
    case False
    then have "added_by (Task_ID t) a (addUser a (ResourceType_TASK, ResourceID ref) (Task_ID t))"
      by (intro added_by_addUser) simp
    with True False show ?thesis by (simp add: addResourceReference_TASK)
  qed
qed

lemma added_by_addSecretReference: "added_by (Task_ID t) a (addSecretReference ext readTx t a ref)"
  by (simp add: addSecretReference_eq added_by_addDeclaredKey)

lemma added_by_addConfigReference: "added_by (Task_ID t) a (addConfigReference readTx t a ref)"
  by (simp add: addConfigReference_eq [where ext = ext] added_by_addDeclaredKey)

subsection \<open>Steps that only log\<close>

lemma logged_only_refl: "logged_only a a"
  by (simp add: logged_only_def)

lemma logged_only_trans: "logged_only a a1 \<Longrightarrow> logged_only a1 a2 \<Longrightarrow> logged_only a a2"
  unfolding logged_only_def
  by (elim conjE exE, intro conjI; (simp; fail)?) (metis append.assoc set_append Un_iff)

lemma logged_only_logf: "\<not> is_failureEntry e \<Longrightarrow> logged_only a (logf a e)"
  by (simp add: logged_only_def logf_def)

lemma logged_only_log_append:
  "\<forall>e \<in> set new. \<not> is_failureEntry e \<Longrightarrow> logged_only a (a \<lparr> log := log a @ new \<rparr>)"
  by (simp add: logged_only_def)

lemma logged_only_usersOf: "logged_only a a' \<Longrightarrow> usersOf a' k = usersOf a k"
  by (simp add: logged_only_def usersOf_def)

lemma logged_only_added_by: "logged_only a a' \<Longrightarrow> added_by tid a a'"
  unfolding logged_only_def
  by (elim conjE exE) (rule added_by_log_only)

lemma logged_only_deCIDR: "logged_only a (fst (deCIDR ext a addr))"
  by (auto simp: deCIDR_def is_failureEntry_def intro: logged_only_logf logged_only_refl
        split: option.splits)

lemma parseErrors_not_failure: "\<forall>e \<in> set (parseErrors ext addrs). \<not> is_failureEntry e"
  by (auto simp: parseErrors_def is_failureEntry_def)

lemma getTaskCertHosts_logged_only:
  assumes "getTaskCertHosts ext readTx a t = Inr (a', hosts)"
  shows "logged_only a a'"
proof (cases "Task_Networks t = []")
  case True
  with assms show ?thesis by (simp add: getTaskCertHosts_def logged_only_refl)
next
  case False
  with assms obtain networkNames where nn: "networkNamesOf (Task_Networks t) Map.empty = Inr networkNames"
    by (auto simp: getTaskCertHosts_def split: sum.splits)
  let ?vips = "case Task_Endpoint t of None \<Rightarrow> [] | Some ep \<Rightarrow> VirtualIPs ep"
  let ?new = "concat (map (\<lambda>attachment. parseErrors ext (Addresses attachment)) (Task_Networks t))
                @ parseErrors ext (map VirtualIP_Addr ?vips)"
  let ?a1 = "a \<lparr> log := log a @ ?new \<rparr>"
  have l1: "logged_only a ?a1"
    using parseErrors_not_failure by (intro logged_only_log_append) auto
  from assms False nn have "a' = ?a1 \<or> a' = logf ?a1 (Log_service_not_found (Task_ID t) (Task_ServiceID t))"
    by (auto simp: getTaskCertHosts_def Let_def split: if_splits option.splits)
  then show ?thesis
  proof
    assume "a' = ?a1"
    with l1 show ?thesis by simp
  next
    assume "a' = logf ?a1 (Log_service_not_found (Task_ID t) (Task_ServiceID t))"
    with logged_only_trans [OF l1 logged_only_logf] show ?thesis
      by (simp add: is_failureEntry_def)
  qed
qed

lemma getTaskCertHosts_hosts:
  assumes "getTaskCertHosts ext readTx a t = Inr (a', hosts)"
  shows "hosts = certHosts ext readTx t"
proof -
  obtain a0 where "getTaskCertHosts ext readTx newAssignmentSet t = Inr (a0, hosts)"
    using assms
    by (auto simp: getTaskCertHosts_def Let_def split: if_splits sum.splits option.splits)
  then show ?thesis by (simp add: certHosts_def)
qed



end
